theory Spec2Isabelle
  imports Complex_Main "HOL-Library.Multiset"
begin

section \<open>Data model (types.ts)\<close>

text \<open>
  The records follow the interfaces of the type file. JavaScript numbers are modelled as
  reals (no NaN unless written out as \<open>None\<close>). The products of the selection
  (\<open>categorizeMessages\<close>) are rounded to double precision, as the section on
  double-precision products says; every other operation is exact. Strings are lists
  of characters, one \<open>char\<close> per code unit, and the character classes of the regular
  expressions are those of ASCII text. Field names that clash with HOL constants or with
  another record's field are renamed: \<open>msgId\<close> for \<open>id\<close>, \<open>msgType\<close> for
  \<open>type\<close>, \<open>strategyName\<close> for a strategy's \<open>name\<close>. The message types are the
  constructors \<open>Query\<close> to \<open>Summary_msg\<close> (for \<open>'summary'\<close>).
\<close>

datatype MessageType =
  Query | Code_change | File_operation | Error | Success | Tool_use | Summary_msg

datatype Role = User | Assistant | System

record CodeBlock =
  language :: string
  blockContent :: string
  filePath :: "string option"

record ImportanceScore =
  total :: real
  recency :: real
  semantic :: real
  references :: real
  fileRelevance :: real
  computed :: real

record MessageMetadata =
  tokenCount :: real
  fileReferences :: "string list"
  codeBlocks :: "CodeBlock list"
  hasError :: bool
  toolsUsed :: "string list"
  importance :: "ImportanceScore option"

record ConversationMessage =
  msgId :: string
  timestamp :: real
  msgType :: MessageType
  role :: Role
  content :: string
  metadata :: MessageMetadata

record PruningStrategy =
  strategyName :: string
  maxTokens :: real
  preserveRatio :: real
  summaryRatio :: real
  importanceThreshold :: real
  alwaysPreserve :: "MessageType list"

record RollbackData =
  pruningId :: string
  removedMessages :: "ConversationMessage list"
  originalOrder :: "string list"
  rollbackTimestamp :: real

section \<open>The undo buffer (PruningEngine.rollbackHistory)\<close>

text \<open>
  A JavaScript \<open>Map\<close> keeps its keys in insertion order and holds each key once:
  \<open>set\<close> on a present key replaces the value where it stands, on a new key appends.
\<close>

type_synonym 'v jsmap = "(string \<times> 'v) list"

fun map_set :: "string \<Rightarrow> 'v \<Rightarrow> 'v jsmap \<Rightarrow> 'v jsmap" where
  "map_set k v [] = [(k, v)]"
| "map_set k v (p # ps) = (if fst p = k then (k, v) # ps else p # map_set k v ps)"

definition map_get :: "'v jsmap \<Rightarrow> string \<Rightarrow> 'v option" where
  "map_get m k = map_of m k"

definition map_delete :: "string \<Rightarrow> 'v jsmap \<Rightarrow> 'v jsmap" where
  "map_delete k m = filter (\<lambda>p. fst p \<noteq> k) m"

definition map_keys :: "'v jsmap \<Rightarrow> string list" where
  "map_keys m = map fst m"

definition MAX_ROLLBACK_HISTORY :: nat where
  "MAX_ROLLBACK_HISTORY = 5"

text \<open>
  \<open>storeRollbackData\<close>: insert, then evict the first key when the size is over the cap.
  The source tests \<open>if (oldestKey)\<close>, which is false for the empty string.
\<close>

definition storeRollbackData ::
  "string \<Rightarrow> RollbackData \<Rightarrow> RollbackData jsmap \<Rightarrow> RollbackData jsmap" where
  "storeRollbackData ident data h =
     (let h1 = map_set ident data h in
      if length h1 > MAX_ROLLBACK_HISTORY then
        (case map_keys h1 of
           [] \<Rightarrow> h1
         | oldestKey # _ \<Rightarrow> if oldestKey \<noteq> [] then map_delete oldestKey h1 else h1)
      else h1)"

text \<open>
  \<open>rollback\<close> returns the boolean and the new buffer. The source has no \<open>throw\<close> on
  this path: the result type has no error branch.
\<close>

definition rollback :: "string \<Rightarrow> RollbackData jsmap \<Rightarrow> bool \<times> RollbackData jsmap" where
  "rollback ident h =
     (case map_get h ident of
        None \<Rightarrow> (False, h)
      | Some rollbackData \<Rightarrow> (True, map_delete ident h))"

section \<open>Strings (JavaScript built-ins used by the analyzers)\<close>

definition toLowerCase_char :: "char \<Rightarrow> char" where
  "toLowerCase_char c =
     (case map_of (zip ''ABCDEFGHIJKLMNOPQRSTUVWXYZ'' ''abcdefghijklmnopqrstuvwxyz'') c of
        Some d \<Rightarrow> d
      | None \<Rightarrow> c)"

definition toLowerCase :: "string \<Rightarrow> string" where
  "toLowerCase s = map toLowerCase_char s"

text \<open>The class \<open>\s\<close>: tab, line feed, vertical tab, form feed, carriage return, space.\<close>

definition is_space :: "char \<Rightarrow> bool" where
  "is_space c \<longleftrightarrow> c \<in> set [CHR 0x09, CHR 0x0A, CHR 0x0B, CHR 0x0C, CHR 0x0D, CHR '' '']"

text \<open>The class \<open>\w\<close>: letters, digits and the underscore.\<close>

definition is_word :: "char \<Rightarrow> bool" where
  "is_word c \<longleftrightarrow>
     c \<in> set ''abcdefghijklmnopqrstuvwxyzABCDEFGHIJKLMNOPQRSTUVWXYZ0123456789_''"

text \<open>\<open>replace(/\s+/g, ' ')\<close>: every maximal run of whitespace becomes one space. The
  flag says that the previous character was whitespace of a run already replaced.\<close>

fun collapse_ws :: "bool \<Rightarrow> string \<Rightarrow> string" where
  "collapse_ws prev [] = []"
| "collapse_ws prev (c # cs) =
     (if is_space c then (if prev then collapse_ws True cs else CHR '' '' # collapse_ws True cs)
      else c # collapse_ws False cs)"

definition trim :: "string \<Rightarrow> string" where
  "trim s = rev (dropWhile is_space (rev (dropWhile is_space s)))"

text \<open>\<open>String.prototype.includes\<close>.\<close>

fun starts_with :: "string \<Rightarrow> string \<Rightarrow> bool" where
  "starts_with s [] = True"
| "starts_with [] (p # ps) = False"
| "starts_with (c # cs) (p # ps) = (c = p \<and> starts_with cs ps)"

fun str_includes :: "string \<Rightarrow> string \<Rightarrow> bool" where
  "str_includes [] sub = (sub = [])"
| "str_includes (c # cs) sub = (starts_with (c # cs) sub \<or> str_includes cs sub)"

section \<open>Redundancy (ContextAnalyzer)\<close>

definition normalizeContent :: "string \<Rightarrow> string" where
  "normalizeContent s =
     trim (filter (\<lambda>c. is_word c \<or> is_space c) (collapse_ws False (toLowerCase s)))"

text \<open>
  The loop of \<open>calculateContentSimilarity\<close>: \<open>uniqueContents\<close> is only tested for
  membership, so the set is kept as a list; \<open>duplicateCount\<close> is the accumulator.
\<close>

fun contentSimilarity_loop :: "ConversationMessage list \<Rightarrow> string list \<Rightarrow> nat \<Rightarrow> nat" where
  "contentSimilarity_loop [] uniqueContents duplicateCount = duplicateCount"
| "contentSimilarity_loop (message # rest) uniqueContents duplicateCount =
     (let normalizedContent = normalizeContent (content message) in
      if normalizedContent \<in> set uniqueContents
      then contentSimilarity_loop rest uniqueContents (duplicateCount + 1)
      else contentSimilarity_loop rest (uniqueContents @ [normalizedContent]) duplicateCount)"

definition calculateContentSimilarity :: "ConversationMessage list \<Rightarrow> real" where
  "calculateContentSimilarity messages =
     (if length messages > 0
      then real (contentSimilarity_loop messages [] 0) / real (length messages)
      else 0)"

text \<open>
  \<open>calculatePatternRepetition\<close>: the pattern string joins three type names with a
  hyphen; no type name holds a hyphen, so the triple stands for the string.
\<close>

fun patternRepetition_loop ::
  "ConversationMessage list \<Rightarrow> (MessageType \<times> MessageType \<times> MessageType) list \<Rightarrow> nat
     \<Rightarrow> (MessageType \<times> MessageType \<times> MessageType) list \<times> nat" where
  "patternRepetition_loop (m0 # m1 # m2 # rest) patterns repetitions =
     (let pattern = (msgType m0, msgType m1, msgType m2) in
      patternRepetition_loop (m1 # m2 # rest) (patterns @ [pattern])
        (if pattern \<in> set patterns then repetitions + 1 else repetitions))"
| "patternRepetition_loop ms patterns repetitions = (patterns, repetitions)"

definition calculatePatternRepetition :: "ConversationMessage list \<Rightarrow> real" where
  "calculatePatternRepetition messages =
     (case patternRepetition_loop messages [] 0 of
        (patterns, repetitions) \<Rightarrow>
          if length patterns > 0 then real repetitions / real (length patterns) else 0)"

definition calculateRedundancy :: "ConversationMessage list \<Rightarrow> real" where
  "calculateRedundancy messages =
     (if length messages < 2 then 0
      else (calculateContentSimilarity messages + calculatePatternRepetition messages) / 2)"

section \<open>Double-precision products\<close>

text \<open>
  A JavaScript number is an IEEE 754 double: a real whose significand has 53 bits. An
  arithmetic operator returns the double nearest to the exact result, and of two nearest
  ones the one with the even significand. \<open>round_even\<close> is the nearest integer with
  that rule for a tie; \<open>round_double\<close> is the nearest double of a real \<open>x\<close>,
  the doubles around \<open>x\<close> being the multiples of
  \<open>2 ^ (\<lfloor>log 2 \<bar>x\<bar>\<rfloor> - 52)\<close>. The exponent is not bounded: the overflow to
  \<open>Infinity\<close> (from \<open>2 ^ 1024\<close> on) and the subnormal numbers (below
  \<open>2 ^ -1022\<close>) are outside the model. A decimal literal of the source denotes the
  double nearest to it (\<open>0.7\<close> is \<open>round_double 0.7\<close>, a little below seven
  tenths), \<open>js_mul\<close> is the operator \<open>*\<close> on two doubles, and \<open>is_double\<close>
  says that a real is a double.
\<close>

definition round_even :: "real \<Rightarrow> int" where
  "round_even y =
     (let f = \<lfloor>y\<rfloor> in
      if y - of_int f < 1 / 2 then f
      else if 1 / 2 < y - of_int f then f + 1
      else if even f then f else f + 1)"

definition round_double :: "real \<Rightarrow> real" where
  "round_double x =
     (if x = 0 then 0
      else (let u = 2 powr of_int (\<lfloor>log 2 \<bar>x\<bar>\<rfloor> - 52)
            in of_int (round_even (x / u)) * u))"

definition js_mul :: "real \<Rightarrow> real \<Rightarrow> real" where
  "js_mul a b = round_double (a * b)"

definition is_double :: "real \<Rightarrow> bool" where
  "is_double x \<longleftrightarrow> round_double x = x"

section \<open>Selection (PruningEngine.categorizeMessages)\<close>

text \<open>
  \<open>DEFAULT_STRATEGIES\<close> of the type file. The budgets are whole numbers; the ratios
  and thresholds are the doubles that the decimal literals denote.
\<close>

definition aggressive :: PruningStrategy where
  "aggressive = \<lparr>strategyName = ''aggressive'', maxTokens = 50000,
     preserveRatio = round_double 0.3, summaryRatio = round_double 0.4,
     importanceThreshold = round_double 0.7, alwaysPreserve = [Error, Code_change]\<rparr>"

definition balanced :: PruningStrategy where
  "balanced = \<lparr>strategyName = ''balanced'', maxTokens = 75000,
     preserveRatio = round_double 0.5, summaryRatio = round_double 0.3,
     importanceThreshold = round_double 0.5,
     alwaysPreserve = [Error, Code_change, File_operation]\<rparr>"

definition conservative :: PruningStrategy where
  "conservative = \<lparr>strategyName = ''conservative'', maxTokens = 100000,
     preserveRatio = round_double 0.7, summaryRatio = round_double 0.2,
     importanceThreshold = round_double 0.3,
     alwaysPreserve = [Error, Code_change, File_operation, Tool_use]\<rparr>"


text \<open>\<open>message.metadata.importance?.total ?? 0\<close>.\<close>

definition importanceTotal :: "ConversationMessage \<Rightarrow> real" where
  "importanceTotal m = (case importance (metadata m) of None \<Rightarrow> 0 | Some i \<Rightarrow> total i)"

definition isSummarizable :: "ConversationMessage \<Rightarrow> bool" where
  "isSummarizable message =
     (if tokenCount (metadata message) < 50 then False
      else if msgType message = Error then False
      else if length (codeBlocks (metadata message)) > 0 then True
      else if length (content message) > 200 then True
      else False)"

text \<open>
  \<open>[...].sort((a, b) => bImportance - aImportance)\<close>: JavaScript's sort is stable, so
  this is the stable sort by descending importance.
\<close>

definition sortByImportance :: "ConversationMessage list \<Rightarrow> ConversationMessage list" where
  "sortByImportance ms = sort_key (\<lambda>m. - importanceTotal m) ms"

text \<open>The first loop: every message goes to exactly one of the three arrays.\<close>

fun categorize_loop ::
  "PruningStrategy \<Rightarrow> ConversationMessage list \<Rightarrow>
     ConversationMessage list \<Rightarrow> ConversationMessage list \<Rightarrow> ConversationMessage list \<Rightarrow> real \<Rightarrow>
     ConversationMessage list \<times> ConversationMessage list \<times> ConversationMessage list \<times> real" where
  "categorize_loop strategy [] preserved toSummarize toRemove currentTokens =
     (preserved, toSummarize, toRemove, currentTokens)"
| "categorize_loop strategy (message # rest) preserved toSummarize toRemove currentTokens =
     (let shouldAlwaysPreserve = msgType message \<in> set (alwaysPreserve strategy);
          isHighImportance = importanceTotal message \<ge> importanceThreshold strategy;
          wouldFitInBudget =
            currentTokens + tokenCount (metadata message) \<le> maxTokens strategy
      in if shouldAlwaysPreserve \<or> (isHighImportance \<and> wouldFitInBudget) then
           categorize_loop strategy rest (preserved @ [message]) toSummarize toRemove
             (currentTokens + tokenCount (metadata message))
         else if isSummarizable message then
           categorize_loop strategy rest preserved (toSummarize @ [message]) toRemove
             currentTokens
         else
           categorize_loop strategy rest preserved toSummarize (toRemove @ [message])
             currentTokens)"

text \<open>
  \<open>Array.prototype.splice(start)\<close> with one argument removes everything from the
  relative start: a negative start counts from the end, a start past the end removes
  nothing.
\<close>

definition splice_start :: "nat \<Rightarrow> int \<Rightarrow> nat" where
  "splice_start len start =
     (if start < 0 then nat (max (int len + start) 0) else min (nat start) len)"

text \<open>The second loop: admission to the summarization pool within the summary budget.\<close>

fun summary_loop ::
  "real \<Rightarrow> ConversationMessage list \<Rightarrow> ConversationMessage list \<Rightarrow>
     ConversationMessage list \<Rightarrow> real \<Rightarrow> ConversationMessage list \<times> ConversationMessage list" where
  "summary_loop summaryBudget [] finalSummarizable toRemove summaryTokens =
     (finalSummarizable, toRemove)"
| "summary_loop summaryBudget (message # rest) finalSummarizable toRemove summaryTokens =
     (if summaryTokens + tokenCount (metadata message) \<le> summaryBudget then
        summary_loop summaryBudget rest (finalSummarizable @ [message]) toRemove
          (summaryTokens + tokenCount (metadata message))
      else
        summary_loop summaryBudget rest finalSummarizable (toRemove @ [message]) summaryTokens)"

text \<open>
  \<open>restoreOriginalOrder\<close>: the order map is built by the \<open>Map\<close> constructor, so a
  repeated identifier keeps its last index; an identifier that is not in the map sorts as
  \<open>Number.MAX_SAFE_INTEGER\<close>.
\<close>

definition MAX_SAFE_INTEGER :: nat where
  "MAX_SAFE_INTEGER = 9007199254740991"

definition orderMap :: "ConversationMessage list \<Rightarrow> nat jsmap" where
  "orderMap original =
     foldl (\<lambda>m (ident, idx). map_set ident idx m) []
       (zip (map msgId original) [0..<length original])"

definition restoreOriginalOrder ::
  "ConversationMessage list \<Rightarrow> ConversationMessage list \<Rightarrow> ConversationMessage list" where
  "restoreOriginalOrder ms original =
     sort_key (\<lambda>a. case map_get (orderMap original) (msgId a) of
                      None \<Rightarrow> MAX_SAFE_INTEGER | Some idx \<Rightarrow> idx) ms"

text \<open>
  The budget correction: the tail of the preserved array from the split point on. Both
  products are the rounded ones: \<open>90 * 0.7\<close> is a little below 63 and
  \<open>Math.floor\<close> of it is 62. The running total is a sum of token counts, exact for
  whole numbers up to \<open>2 ^ 53\<close>.
\<close>

definition budget_correction ::
  "PruningStrategy \<Rightarrow>
     ConversationMessage list \<times> ConversationMessage list \<times> ConversationMessage list \<times> real \<Rightarrow>
     ConversationMessage list \<times> ConversationMessage list \<times> ConversationMessage list" where
  "budget_correction strategy st =
     (case st of (preserved, toSummarize, toRemove, currentTokens) \<Rightarrow>
        if currentTokens > js_mul (maxTokens strategy) (preserveRatio strategy) then
          (let start = splice_start (length preserved)
                         \<lfloor>js_mul (real (length preserved)) (preserveRatio strategy)\<rfloor>;
               excess = drop start preserved
           in (take start preserved,
               toSummarize @ filter isSummarizable excess,
               toRemove @ filter (\<lambda>msg. \<not> isSummarizable msg) excess))
        else (preserved, toSummarize, toRemove))"

record Categorized =
  preserved :: "ConversationMessage list"
  toRemove :: "ConversationMessage list"
  toSummarize :: "ConversationMessage list"

definition categorizeMessages ::
  "ConversationMessage list \<Rightarrow> PruningStrategy \<Rightarrow> Categorized" where
  "categorizeMessages messages strategy =
     (case budget_correction strategy
             (categorize_loop strategy (sortByImportance messages) [] [] [] 0) of
        (preserved1, toSummarize1, toRemove1) \<Rightarrow>
          (case summary_loop (js_mul (maxTokens strategy) (summaryRatio strategy))
                  (sortByImportance toSummarize1) [] toRemove1 0 of
             (finalSummarizable, toRemove2) \<Rightarrow>
               \<lparr>preserved = restoreOriginalOrder preserved1 messages,
                toRemove = restoreOriginalOrder toRemove2 messages,
                toSummarize = restoreOriginalOrder finalSummarizable messages\<rparr>))"

section \<open>Regular expressions of the summarizer\<close>

text \<open>
  The three patterns of \<open>SUMMARY_PATTERNS\<close> that the summarizer applies use literals
  (flag \<open>i\<close>: letters match in either case), alternatives, an optional letter, the
  greedy \<open>\s+\<close> and \<open>[\w]+\<close>, the lazy \<open>.*?\<close> and \<open>$\<close> (no flag \<open>m\<close>: the end
  of the input). A backtracking matcher tries the alternatives in order; \<open>rx_match\<close>
  lists, in that order of preference, what is left of the input after each way to match.
  The match the engine reports is the first of the list.
\<close>

datatype rx =
  Lit string | Alt rx rx | Seq rx rx | Opt rx
  | Plus "char \<Rightarrow> bool" | LazyStar "char \<Rightarrow> bool" | EndOfInput

fun plus_greedy :: "(char \<Rightarrow> bool) \<Rightarrow> string \<Rightarrow> string list" where
  "plus_greedy C [] = []"
| "plus_greedy C (c # cs) = (if C c then plus_greedy C cs @ [cs] else [])"

fun star_lazy :: "(char \<Rightarrow> bool) \<Rightarrow> string \<Rightarrow> string list" where
  "star_lazy C [] = [[]]"
| "star_lazy C (c # cs) = (c # cs) # (if C c then star_lazy C cs else [])"

fun rx_match :: "rx \<Rightarrow> string \<Rightarrow> string list" where
  "rx_match (Lit l) s = (if starts_with (toLowerCase s) l then [drop (length l) s] else [])"
| "rx_match (Alt a b) s = rx_match a s @ rx_match b s"
| "rx_match (Seq a b) s = concat (map (rx_match b) (rx_match a s))"
| "rx_match (Opt a) s = rx_match a s @ [s]"
| "rx_match (Plus C) s = plus_greedy C s"
| "rx_match (LazyStar C) s = star_lazy C s"
| "rx_match EndOfInput s = (if s = [] then [[]] else [])"

text \<open>
  \<open>String.prototype.match\<close> with a global pattern: the matches from left to right, each
  search starting where the previous match ended (one character further after an empty
  match). The source treats the result \<open>null\<close> (no match) as no iteration: the empty list.
\<close>

fun match_all :: "rx \<Rightarrow> string \<Rightarrow> string list" where
  "match_all r [] = (case rx_match r [] of [] \<Rightarrow> [] | rest # _ \<Rightarrow> [[]])"
| "match_all r (c # cs) =
     (case rx_match r (c # cs) of
        [] \<Rightarrow> match_all r cs
      | rest # _ \<Rightarrow>
          if length rest < length (c # cs)
          then take (length (c # cs) - length rest) (c # cs)
                 # match_all r (drop (length (c # cs) - length rest) (c # cs))
          else [] # match_all r cs)"

text \<open>The dot matches every character but a line terminator.\<close>

definition dot :: "char \<Rightarrow> bool" where
  "dot c \<longleftrightarrow> c \<noteq> CHR 0x0A \<and> c \<noteq> CHR 0x0D"

definition rx_codeChanges :: rx where
  "rx_codeChanges =
     Seq (Alt (Seq (Lit ''create'') (Opt (Lit ''d'')))
         (Alt (Seq (Lit ''update'') (Opt (Lit ''d'')))
         (Alt (Lit ''modified'')
         (Alt (Seq (Lit ''delete'') (Opt (Lit ''d'')))
         (Alt (Seq (Lit ''refactore'') (Opt (Lit ''d'')))
              (Seq (Lit ''implemente'') (Opt (Lit ''d''))))))))
     (Seq (Plus is_space)
     (Seq (LazyStar dot)
          (Alt (Lit ''function'') (Alt (Lit ''class'') (Alt (Lit ''method'')
          (Alt (Lit ''file'') (Lit ''component'')))))))"

definition rx_errors :: rx where
  "rx_errors =
     Seq (Alt (Lit ''error'') (Alt (Lit ''exception'')
         (Alt (Seq (Lit ''faile'') (Opt (Lit ''d''))) (Alt (Lit ''bug'') (Lit ''issue'')))))
     (Seq (LazyStar dot) (Alt (Lit [CHR 0x0A]) EndOfInput))"

definition rx_fileOperations :: rx where
  "rx_fileOperations =
     Seq (Alt (Lit ''read'') (Alt (Lit ''wrote'') (Alt (Lit ''edited'')
         (Alt (Lit ''created'') (Lit ''deleted'')))))
     (Seq (Plus is_space) (Seq (LazyStar dot) (Seq (Lit ''.'') (Plus is_word))))"

section \<open>Hierarchical summarizer (summarizer.ts)\<close>

datatype SummaryLevel = Immediate | Session | Project

record Summary =
  summaryId :: string
  level :: SummaryLevel
  summaryText :: string
  originalMessageIds :: "string list"
  tokensSaved :: real
  summaryTimestamp :: real

text \<open>
  What the source takes from the clock and the random generator: the time of the call
  and the identifiers it makes up.
\<close>

record Env =
  now :: real
  freshPruningId :: string
  freshSummaryId :: "nat \<Rightarrow> string"

fun MAX_SUMMARY_LENGTH :: "SummaryLevel \<Rightarrow> nat" where
  "MAX_SUMMARY_LENGTH Immediate = 200"
| "MAX_SUMMARY_LENGTH Session = 500"
| "MAX_SUMMARY_LENGTH Project = 1000"

text \<open>A JavaScript \<open>Set\<close> of strings, in insertion order.\<close>

definition set_add :: "string list \<Rightarrow> string \<Rightarrow> string list" where
  "set_add xs x = (if x \<in> set xs then xs else xs @ [x])"

definition new_Set :: "string list \<Rightarrow> string list" where
  "new_Set xs = foldl set_add [] xs"

fun join :: "string \<Rightarrow> string list \<Rightarrow> string" where
  "join sep [] = []"
| "join sep [x] = x"
| "join sep (x # y # ys) = x @ sep @ join sep (y # ys)"

subsection \<open>Segmentation\<close>

fun segmentByInteraction_loop ::
  "ConversationMessage list \<Rightarrow> ConversationMessage list list \<Rightarrow> ConversationMessage list
     \<Rightarrow> ConversationMessage list list" where
  "segmentByInteraction_loop [] segments currentSegment =
     (if length currentSegment > 0 then segments @ [currentSegment] else segments)"
| "segmentByInteraction_loop (message # rest) segments currentSegment =
     (let currentSegment1 = currentSegment @ [message] in
      if role message = Assistant \<and> length currentSegment1 \<ge> 2
         \<and> (\<exists>m \<in> set currentSegment1. role m = User)
      then segmentByInteraction_loop rest (segments @ [currentSegment1]) []
      else segmentByInteraction_loop rest segments currentSegment1)"

definition segmentByInteraction :: "ConversationMessage list \<Rightarrow> ConversationMessage list list" where
  "segmentByInteraction ms = segmentByInteraction_loop ms [] []"

definition hasSignificantFileContextChange :: "string list \<Rightarrow> string list \<Rightarrow> bool" where
  "hasSignificantFileContextChange oldFiles newFiles =
     (if length oldFiles = 0 then False
      else
        (let intersection = filter (\<lambda>f. f \<in> set newFiles) oldFiles;
             union = new_Set (oldFiles @ newFiles);
             jaccardSimilarity = real (length intersection) / real (length union)
         in jaccardSimilarity < 0.3))"

fun segmentByTopic_loop ::
  "ConversationMessage list \<Rightarrow> ConversationMessage list list \<Rightarrow> ConversationMessage list
     \<Rightarrow> string list \<Rightarrow> ConversationMessage list list" where
  "segmentByTopic_loop [] segments currentSegment lastFiles =
     (if length currentSegment > 0 then segments @ [currentSegment] else segments)"
| "segmentByTopic_loop (message # rest) segments currentSegment lastFiles =
     (let messageFiles = new_Set (fileReferences (metadata message));
          hasFileContextChange = hasSignificantFileContextChange lastFiles messageFiles;
          cut = hasFileContextChange \<and> length currentSegment > 0;
          segments1 = (if cut then segments @ [currentSegment] else segments);
          currentSegment1 = (if cut then [] else currentSegment) @ [message];
          lastFiles1 = new_Set (lastFiles @ messageFiles)
      in if length currentSegment1 \<ge> 10
         then segmentByTopic_loop rest (segments1 @ [currentSegment1]) [] []
         else segmentByTopic_loop rest segments1 currentSegment1 lastFiles1)"

definition segmentByTopic :: "ConversationMessage list \<Rightarrow> ConversationMessage list list" where
  "segmentByTopic ms = segmentByTopic_loop ms [] [] []"

text \<open>
  \<open>segmentByFileContext\<close>: the groups are a \<open>Map\<close> from the first referenced file to
  its messages. The source tests \<open>if (primaryFile)\<close>: a message whose first reference
  is the empty string joins no group.
\<close>

fun group_push ::
  "string \<Rightarrow> ConversationMessage \<Rightarrow> (string \<times> ConversationMessage list) list
     \<Rightarrow> (string \<times> ConversationMessage list) list" where
  "group_push k m [] = [(k, [m])]"
| "group_push k m (p # ps) =
     (if fst p = k then (k, snd p @ [m]) # ps else p # group_push k m ps)"

fun segmentByFileContext_loop ::
  "ConversationMessage list \<Rightarrow> (string \<times> ConversationMessage list) list
     \<Rightarrow> ConversationMessage list \<Rightarrow> ConversationMessage list list" where
  "segmentByFileContext_loop [] fileGroups generalMessages =
     (if length generalMessages > 0 then generalMessages # map snd fileGroups
      else map snd fileGroups)"
| "segmentByFileContext_loop (message # rest) fileGroups generalMessages =
     (case fileReferences (metadata message) of
        [] \<Rightarrow> segmentByFileContext_loop rest fileGroups (generalMessages @ [message])
      | primaryFile # _ \<Rightarrow>
          if primaryFile \<noteq> []
          then segmentByFileContext_loop rest (group_push primaryFile message fileGroups)
                 generalMessages
          else segmentByFileContext_loop rest fileGroups generalMessages)"

definition segmentByFileContext :: "ConversationMessage list \<Rightarrow> ConversationMessage list list" where
  "segmentByFileContext ms = segmentByFileContext_loop ms [] []"

fun segmentConversation ::
  "ConversationMessage list \<Rightarrow> SummaryLevel \<Rightarrow> ConversationMessage list list" where
  "segmentConversation ms Immediate = segmentByInteraction ms"
| "segmentConversation ms Session = segmentByTopic ms"
| "segmentConversation ms Project = segmentByFileContext ms"

subsection \<open>Summary text\<close>

text \<open>
  \<open>cleanExtractedText\<close>: trim, collapse whitespace, strip the leading and the trailing
  run of non-word characters (\<open>/^[^\w]+|[^\w]+$/g\<close>), lower case.
\<close>

definition strip_nonword :: "string \<Rightarrow> string" where
  "strip_nonword s =
     rev (dropWhile (\<lambda>c. \<not> is_word c) (rev (dropWhile (\<lambda>c. \<not> is_word c) s)))"

definition cleanExtractedText :: "string \<Rightarrow> string" where
  "cleanExtractedText text = toLowerCase (strip_nonword (collapse_ws False (trim text)))"

definition activities_of :: "ConversationMessage \<Rightarrow> string list \<Rightarrow> string list" where
  "activities_of message activities =
     (let c = toLowerCase (content message);
          a1 = (if str_includes c ''implement'' \<or> str_includes c ''create''
                then set_add activities ''implementation'' else activities);
          a2 = (if str_includes c ''fix'' \<or> str_includes c ''debug''
                then set_add a1 ''debugging'' else a1);
          a3 = (if str_includes c ''refactor'' \<or> str_includes c ''improve''
                then set_add a2 ''refactoring'' else a2);
          a4 = (if str_includes c ''test'' \<or> str_includes c ''verify''
                then set_add a3 ''testing'' else a3)
      in if length (toolsUsed (metadata message)) > 0 then set_add a4 ''tool usage'' else a4)"

definition extractActivities :: "ConversationMessage list \<Rightarrow> string list" where
  "extractActivities ms = foldl (\<lambda>activities message. activities_of message activities) [] ms"

text \<open>\<open>if (codeBlock.filePath)\<close> is false for a missing path and for the empty string.\<close>

definition codeBlock_change :: "CodeBlock \<Rightarrow> string" where
  "codeBlock_change codeBlock =
     (case filePath codeBlock of
        None \<Rightarrow> language codeBlock @ '' code''
      | Some fp \<Rightarrow> if fp \<noteq> [] then ''modified '' @ fp else language codeBlock @ '' code'')"

definition changes_of :: "ConversationMessage \<Rightarrow> string list \<Rightarrow> string list" where
  "changes_of message changes =
     foldl set_add
       (foldl set_add changes (map cleanExtractedText (match_all rx_codeChanges (content message))))
       (map codeBlock_change (codeBlocks (metadata message)))"

definition extractCodeChanges :: "ConversationMessage list \<Rightarrow> string list" where
  "extractCodeChanges ms = take 5 (foldl (\<lambda>changes message. changes_of message changes) [] ms)"

definition operations_of :: "ConversationMessage \<Rightarrow> string list \<Rightarrow> string list" where
  "operations_of message operations =
     foldl set_add
       (foldl set_add operations
          (map cleanExtractedText (match_all rx_fileOperations (content message))))
       (map (\<lambda>file. ''worked on '' @ file) (fileReferences (metadata message)))"

definition extractFileOperations :: "ConversationMessage list \<Rightarrow> string list" where
  "extractFileOperations ms =
     take 3 (foldl (\<lambda>operations message. operations_of message operations) [] ms)"

definition errors_of :: "ConversationMessage \<Rightarrow> string list \<Rightarrow> string list" where
  "errors_of message errors =
     (if hasError (metadata message)
      then foldl set_add errors (map cleanExtractedText (match_all rx_errors (content message)))
      else errors)"

definition extractErrors :: "ConversationMessage list \<Rightarrow> string list" where
  "extractErrors ms = take 2 (foldl (\<lambda>errors message. errors_of message errors) [] ms)"

definition determineOutcome :: "ConversationMessage list \<Rightarrow> string" where
  "determineOutcome ms =
     (if ms = [] then []
      else
        (let lastMessage = last ms in
         if hasError (metadata lastMessage) then ''unresolved''
         else if msgType lastMessage = Success
                 \<or> str_includes (toLowerCase (content lastMessage)) ''complete''
                 \<or> str_includes (toLowerCase (content lastMessage)) ''done''
              then ''completed successfully''
         else if msgType lastMessage = Code_change then ''implemented changes''
         else ''in progress''))"

text \<open>\<open>String.prototype.lastIndexOf\<close> of one character: the last index, or -1.\<close>

fun lastIndexOf_from :: "string \<Rightarrow> char \<Rightarrow> int \<Rightarrow> int \<Rightarrow> int" where
  "lastIndexOf_from [] c i found = found"
| "lastIndexOf_from (x # xs) c i found =
     lastIndexOf_from xs c (i + 1) (if x = c then i else found)"

definition lastIndexOf :: "string \<Rightarrow> char \<Rightarrow> int" where
  "lastIndexOf s c = lastIndexOf_from s c 0 (- 1)"

text \<open>
  \<open>truncateSummary\<close>. The comparison \<open>lastSentenceEnd > maxLength * 0.7\<close> is between
  an integer and the product; for the three budgets the floating-point products are
  exactly 140, 350 and 700, as the real products are.
\<close>

definition truncateSummary :: "string \<Rightarrow> nat \<Rightarrow> string" where
  "truncateSummary summary maxLength =
     (if length summary \<le> maxLength then summary
      else
        (let truncated = take maxLength summary;
             lastSentenceEnd =
               max (max (lastIndexOf truncated CHR ''.'') (lastIndexOf truncated CHR ''!''))
                   (lastIndexOf truncated CHR ''?'')
         in if real_of_int lastSentenceEnd > real maxLength * 0.7
            then take (nat (lastSentenceEnd + 1)) truncated
            else truncated @ ''...''))"

definition generateSummaryContent :: "ConversationMessage list \<Rightarrow> SummaryLevel \<Rightarrow> string" where
  "generateSummaryContent ms lev =
     (let maxLength = MAX_SUMMARY_LENGTH lev;
          activities = extractActivities ms;
          codeChanges = extractCodeChanges ms;
          fileOperations = extractFileOperations ms;
          errors = extractErrors ms;
          s1 = (if length activities > 0
                then ''Activities: '' @ join '', '' activities @ ''. '' else []);
          s2 = (if length codeChanges > 0
                then s1 @ ''Code changes: '' @ join '', '' codeChanges @ ''. '' else s1);
          s3 = (if length fileOperations > 0
                then s2 @ ''File operations: '' @ join '', '' fileOperations @ ''. '' else s2);
          s4 = (if length errors > 0
                then s3 @ ''Errors encountered: '' @ join '', '' errors @ ''. '' else s3);
          outcome = determineOutcome ms;
          s5 = (if outcome \<noteq> [] then s4 @ ''Outcome: '' @ outcome else s4)
      in truncateSummary s5 maxLength)"

definition calculateTokensSaved :: "ConversationMessage list \<Rightarrow> string \<Rightarrow> real" where
  "calculateTokensSaved originalMessages text =
     (let originalTokens = sum_list (map (\<lambda>msg. tokenCount (metadata msg)) originalMessages);
          summaryTokens = real_of_int \<lceil>real (length text) / 4\<rceil>
      in max 0 (originalTokens - summaryTokens))"

text \<open>\<open>createSummary\<close>; the number \<open>k\<close> counts the identifiers made so far.\<close>

definition createSummary ::
  "Env \<Rightarrow> nat \<Rightarrow> ConversationMessage list \<Rightarrow> SummaryLevel \<Rightarrow> Summary option" where
  "createSummary env k ms lev =
     (if length ms = 0 then None
      else
        (let text = generateSummaryContent ms lev in
         if trim text = [] then None
         else Some \<lparr>summaryId = freshSummaryId env k, level = lev, summaryText = text,
                    originalMessageIds = map msgId ms,
                    tokensSaved = calculateTokensSaved ms text,
                    summaryTimestamp = now env\<rparr>))"

fun createSummaries_loop ::
  "Env \<Rightarrow> SummaryLevel \<Rightarrow> ConversationMessage list list \<Rightarrow> Summary list \<Rightarrow> Summary list" where
  "createSummaries_loop env lev [] summaries = summaries"
| "createSummaries_loop env lev (segment # rest) summaries =
     (case createSummary env (length summaries) segment lev of
        None \<Rightarrow> createSummaries_loop env lev rest summaries
      | Some summary \<Rightarrow> createSummaries_loop env lev rest (summaries @ [summary]))"

definition createSummaries :: "Env \<Rightarrow> ConversationMessage list \<Rightarrow> SummaryLevel \<Rightarrow> Summary list" where
  "createSummaries env ms lev = createSummaries_loop env lev (segmentConversation ms lev) []"

section \<open>The pruning operation (PruningEngine.prune)\<close>

text \<open>
  The context carries its messages, its own total, the active files and the start time.
  The optional system context and tool-result history are absent in the modelled
  contexts: \<open>pruneSystemContext(undefined)\<close> and \<open>pruneToolResults(undefined)\<close>
  contribute no tokens, and the enhanced total is the sum of the message token counts.
\<close>

record ConversationContext =
  messages :: "ConversationMessage list"
  totalTokens :: real
  activeFiles :: "string list"
  sessionStartTime :: real

text \<open>
  \<open>scoreMessages\<close> copies every message and replaces \<open>metadata.importance\<close> only. The
  score itself (\<open>calculateImportanceScore\<close>) depends on the clock and on the stemming
  and stop-word libraries: it is a parameter, applied to the message, its index and the
  whole message list.
\<close>

type_synonym scorer = "ConversationMessage \<Rightarrow> nat \<Rightarrow> ConversationMessage list \<Rightarrow> ImportanceScore"

definition scoreMessages :: "scorer \<Rightarrow> ConversationContext \<Rightarrow> ConversationMessage list" where
  "scoreMessages calculateImportanceScore context =
     map (\<lambda>(message, index).
            message\<lparr>metadata := (metadata message)
              \<lparr>importance := Some (calculateImportanceScore message index (messages context))\<rparr>\<rparr>)
         (zip (messages context) [0..<length (messages context)])"

definition estimateTokens :: "string \<Rightarrow> real" where
  "estimateTokens text = real_of_int \<lceil>real (length text) / 4\<rceil>"

definition summariesToMessages :: "Env \<Rightarrow> Summary list \<Rightarrow> ConversationMessage list" where
  "summariesToMessages env summaries =
     map (\<lambda>summary.
            \<lparr>msgId = summaryId summary, timestamp = summaryTimestamp summary,
             msgType = Summary_msg, role = Assistant,
             content = ''[SUMMARY] '' @ summaryText summary,
             metadata = \<lparr>tokenCount = estimateTokens (summaryText summary),
               fileReferences = [], codeBlocks = [], hasError = False, toolsUsed = [],
               importance = Some \<lparr>total = 0.8, recency = 0.9, semantic = 0.8,
                 references = 0.7, fileRelevance = 0.6, computed = now env\<rparr>\<rparr>\<rparr>)
         summaries"

definition calculateTotalTokens :: "ConversationMessage list \<Rightarrow> real" where
  "calculateTotalTokens ms = foldl (\<lambda>t msg. t + tokenCount (metadata msg)) 0 ms"

text \<open>
  \<open>ContextAnalyzer.calculateEnhancedTokenCount\<close>, the total that \<open>prune\<close> reports
  as original: the message tokens, and nothing for the absent system context and tool
  results.
\<close>

definition calculateEnhancedTokenCount :: "ConversationContext \<Rightarrow> real" where
  "calculateEnhancedTokenCount context =
     (let messageTokens = foldl (\<lambda>t msg. t + tokenCount (metadata msg)) 0 (messages context);
          systemTokens = 0;
          toolResultTokens = 0
      in messageTokens + systemTokens + toolResultTokens)"

text \<open>
  A quotient whose divisor is zero is NaN or infinite in JavaScript: \<open>None\<close>.
\<close>

definition js_divide :: "real \<Rightarrow> real \<Rightarrow> real option" where
  "js_divide a b = (if b = 0 then None else Some (a / b))"

record PruningResult =
  originalTokens :: real
  finalTokens :: real
  reductionPercent :: "real option"
  messagesRemoved :: nat
  messagesSummarized :: nat
  summariesCreated :: "Summary list"
  rollbackData :: RollbackData

text \<open>
  \<open>prune\<close> returns its result and the new undo buffer. The summaries are made from the
  admitted pool with the level \<open>'session'\<close>.
\<close>

definition prune ::
  "scorer \<Rightarrow> Env \<Rightarrow> RollbackData jsmap \<Rightarrow> ConversationContext \<Rightarrow> PruningStrategy
     \<Rightarrow> PruningResult \<times> RollbackData jsmap" where
  "prune calculateImportanceScore env history context strategy =
     (let ident = freshPruningId env;
          original = calculateEnhancedTokenCount context;
          scoredMessages = scoreMessages calculateImportanceScore context;
          c = categorizeMessages scoredMessages strategy;
          summaries = createSummaries env (toSummarize c) Session;
          rb = \<lparr>pruningId = ident, removedMessages = toRemove c,
                 originalOrder = map msgId (messages context), rollbackTimestamp = now env\<rparr>;
          final = calculateTotalTokens (preserved c @ summariesToMessages env summaries) + 0 + 0
      in (\<lparr>originalTokens = original, finalTokens = final,
            reductionPercent = map_option (\<lambda>q. q * 100) (js_divide (original - final) original),
            messagesRemoved = length (toRemove c),
            messagesSummarized = length (toSummarize c),
            summariesCreated = summaries,
            rollbackData = rb\<rparr>,
          storeRollbackData ident rb history))"

text \<open>
  The operations that touch the undo buffer: a pruning operation stores its record under
  the identifier it made up, an undo consumes one. \<open>engine_run\<close> is the buffer after a
  sequence of operations on a new engine.
\<close>

datatype EngineOp =
  OpPrune scorer Env ConversationContext PruningStrategy
  | OpRollback string

fun engine_step :: "RollbackData jsmap \<Rightarrow> EngineOp \<Rightarrow> RollbackData jsmap" where
  "engine_step h (OpPrune calculateImportanceScore env context strategy) =
     snd (prune calculateImportanceScore env h context strategy)"
| "engine_step h (OpRollback ident) = snd (rollback ident h)"

definition engine_run :: "EngineOp list \<Rightarrow> RollbackData jsmap" where
  "engine_run ops = foldl engine_step [] ops"

section \<open>Lexical ranker (BM25Scorer)\<close>

text \<open>
  \<open>preprocessText\<close> lower-cases, replaces punctuation by spaces, splits at whitespace
  and drops the tokens of one character or none; it then calls the libraries
  \<open>stopword\<close> and \<open>natural\<close>, which are not part of the repository: their two
  functions are parameters.
\<close>

record nlp =
  removeStopwords :: "string list \<Rightarrow> string list"
  stem :: "string \<Rightarrow> string"

fun split_sp :: "string \<Rightarrow> string \<Rightarrow> string list" where
  "split_sp cur [] = [cur]"
| "split_sp cur (c # cs) =
     (if c = CHR '' '' then cur # split_sp [] cs else split_sp (cur @ [c]) cs)"

text \<open>\<open>split(/\s+/)\<close>: collapse every run of whitespace, then split at the spaces.\<close>

definition split_ws :: "string \<Rightarrow> string list" where
  "split_ws s = split_sp [] (collapse_ws False s)"

definition preprocessText :: "nlp \<Rightarrow> string \<Rightarrow> string list" where
  "preprocessText lib text =
     (let tokens = filter (\<lambda>token. length token > 1)
            (split_ws (map (\<lambda>c. if is_word c \<or> is_space c then c else CHR '' '')
                          (toLowerCase text)));
          withoutStopwords = removeStopwords lib tokens
      in map (stem lib) withoutStopwords)"

text \<open>
  A \<open>Record<string, number>\<close> read with \<open>|| 0\<close> is a function that is 0 at the keys
  it does not hold (own properties only: a token that names a property of
  \<open>Object.prototype\<close> is outside the model). \<open>normalizedLength\<close> is \<open>None\<close> when the
  quotient is NaN (no terms in the whole corpus).
\<close>

record DocumentStats =
  termFreq :: "string \<Rightarrow> nat"
  totalTerms :: nat
  normalizedLength :: "real option"

text \<open>
  The scorer's fields \<open>documentStats\<close> and \<open>globalTermFreq\<close> hold references to an
  array and to a table. The store maps the addresses of the arrays and of the tables to
  their contents; \<open>next_addr\<close> is the first address not yet allocated.
\<close>

record store =
  arrays :: "nat \<Rightarrow> DocumentStats list"
  tables :: "nat \<Rightarrow> string \<Rightarrow> nat"
  next_addr :: nat

record BM25Scorer =
  param_k1 :: real
  param_b :: real
  documentStats :: nat
  globalTermFreq :: nat
  averageDocLength :: real
  totalDocuments :: nat

definition alloc_array :: "DocumentStats list \<Rightarrow> store \<Rightarrow> nat \<times> store" where
  "alloc_array xs st =
     (next_addr st, st\<lparr>arrays := (arrays st)(next_addr st := xs), next_addr := next_addr st + 1\<rparr>)"

definition alloc_table :: "(string \<Rightarrow> nat) \<Rightarrow> store \<Rightarrow> nat \<times> store" where
  "alloc_table t st =
     (next_addr st, st\<lparr>tables := (tables st)(next_addr st := t), next_addr := next_addr st + 1\<rparr>)"

definition empty_store :: store where
  "empty_store = \<lparr>arrays = (\<lambda>a. []), tables = (\<lambda>a term. 0), next_addr = 0\<rparr>"

text \<open>The constructor: an empty array, an empty table, no documents.\<close>

definition new_BM25Scorer :: "real \<Rightarrow> real \<Rightarrow> store \<Rightarrow> BM25Scorer \<times> store" where
  "new_BM25Scorer k1 b st =
     (case alloc_array [] st of (a, st1) \<Rightarrow>
      case alloc_table (\<lambda>term. 0) st1 of (t, st2) \<Rightarrow>
        (\<lparr>param_k1 = k1, param_b = b, documentStats = a, globalTermFreq = t,
          averageDocLength = 0, totalDocuments = 0\<rparr>, st2))"

text \<open>The inner loop of \<open>indexDocuments\<close>: both counters go up once per occurrence.\<close>

fun count_terms ::
  "string list \<Rightarrow> (string \<Rightarrow> nat) \<Rightarrow> (string \<Rightarrow> nat) \<Rightarrow> (string \<Rightarrow> nat) \<times> (string \<Rightarrow> nat)" where
  "count_terms [] tf global = (tf, global)"
| "count_terms (term # rest) tf global =
     count_terms rest (tf(term := tf term + 1)) (global(term := global term + 1))"

fun index_loop ::
  "nlp \<Rightarrow> string list \<Rightarrow> DocumentStats list \<Rightarrow> (string \<Rightarrow> nat) \<Rightarrow> nat
     \<Rightarrow> DocumentStats list \<times> (string \<Rightarrow> nat) \<times> nat" where
  "index_loop lib [] stats global totalLength = (stats, global, totalLength)"
| "index_loop lib (doc # rest) stats global totalLength =
     (let terms = preprocessText lib doc in
      case count_terms terms (\<lambda>term. 0) global of (tf, global1) \<Rightarrow>
        index_loop lib rest
          (stats @ [\<lparr>termFreq = tf, totalTerms = length terms,
                      normalizedLength = Some (real (length terms))\<rparr>])
          global1 (totalLength + length terms))"

text \<open>
  \<open>indexDocuments\<close> assigns a new array and a new table to the two fields and fills
  them; the objects the fields referred to before are not written. The new objects have
  no other reference during the call, so the model writes their final contents at once.
\<close>

definition indexDocuments ::
  "nlp \<Rightarrow> string list \<Rightarrow> BM25Scorer \<times> store \<Rightarrow> BM25Scorer \<times> store" where
  "indexDocuments lib documents s =
     (case s of (sc, st) \<Rightarrow>
      case alloc_array [] st of (a, st1) \<Rightarrow>
      case alloc_table (\<lambda>term. 0) st1 of (t, st2) \<Rightarrow>
      case index_loop lib documents [] (\<lambda>term. 0) 0 of (stats, global, totalLength) \<Rightarrow>
        (let n = length documents;
             avg = (if n > 0 then real totalLength / real n else 0);
             normalized = map (\<lambda>docStats. docStats\<lparr>normalizedLength :=
                                 (if avg = 0 then None
                                  else Some (real (totalTerms docStats) / avg))\<rparr>) stats
         in (sc\<lparr>documentStats := a, globalTermFreq := t, averageDocLength := avg,
                totalDocuments := n\<rparr>,
             st2\<lparr>arrays := (arrays st2)(a := normalized),
                 tables := (tables st2)(t := global)\<rparr>)))"

text \<open>
  Numbers that may be NaN: \<open>None\<close> is NaN. \<open>Math.log\<close> of a negative number is NaN;
  its argument here is a half-integer over a positive number and never zero. A division
  by zero would give NaN or an infinity: the model returns \<open>None\<close> there and follows the
  IEEE special values no further.
\<close>

definition js_log :: "real \<Rightarrow> real option" where
  "js_log x = (if 0 < x then Some (ln x) else None)"

definition js_times :: "real option \<Rightarrow> real option \<Rightarrow> real option" where
  "js_times x y = (case x of None \<Rightarrow> None | Some u \<Rightarrow> map_option (\<lambda>v. u * v) y)"

definition js_plus :: "real option \<Rightarrow> real option \<Rightarrow> real option" where
  "js_plus x y = (case x of None \<Rightarrow> None | Some u \<Rightarrow> map_option (\<lambda>v. u + v) y)"

fun score_loop ::
  "BM25Scorer \<Rightarrow> (string \<Rightarrow> nat) \<Rightarrow> DocumentStats \<Rightarrow> string list \<Rightarrow> real option
     \<Rightarrow> real option" where
  "score_loop sc global docStats [] score = score"
| "score_loop sc global docStats (term # rest) score =
     (let termFreqInDoc = termFreq docStats term;
          termFreqInCorpus = global term
      in if termFreqInDoc = 0 then score_loop sc global docStats rest score
         else
           (let idf = js_log ((real (totalDocuments sc) - real termFreqInCorpus + 0.5)
                                / (real termFreqInCorpus + 0.5));
                tfComponent =
                  (case normalizedLength docStats of
                     None \<Rightarrow> None
                   | Some nl \<Rightarrow>
                       js_divide (real termFreqInDoc * (param_k1 sc + 1))
                         (real termFreqInDoc
                            + param_k1 sc * (1 - param_b sc + param_b sc * nl)))
            in score_loop sc global docStats rest (js_plus score (js_times idf tfComponent))))"

definition calculateScore :: "nlp \<Rightarrow> BM25Scorer \<times> store \<Rightarrow> string \<Rightarrow> int \<Rightarrow> real option" where
  "calculateScore lib s query documentIndex =
     (case s of (sc, st) \<Rightarrow>
        if documentIndex < 0 \<or> documentIndex \<ge> int (length (arrays st (documentStats sc)))
        then Some 0
        else
          (let queryTerms = preprocessText lib query;
               docStats = arrays st (documentStats sc) ! nat documentIndex
           in map_option (max 0)
                (score_loop sc (tables st (globalTermFreq sc)) docStats queryTerms (Some 0))))"

text \<open>
  \<open>calculateSimilarity\<close>: the array reference is saved as it is, the table is copied
  into a new object; after the temporary index both fields, the average and the count
  are set back. \<open>maxPossibleScore > 0\<close> is false for NaN.
\<close>

definition calculateSimilarity ::
  "nlp \<Rightarrow> BM25Scorer \<times> store \<Rightarrow> string \<Rightarrow> string \<Rightarrow> real option \<times> (BM25Scorer \<times> store)" where
  "calculateSimilarity lib s text1 text2 =
     (case s of (sc, st) \<Rightarrow>
      case alloc_table (tables st (globalTermFreq sc)) st of (originalGlobalFreq, st1) \<Rightarrow>
        (let originalStats = documentStats sc;
             originalAvgLength = averageDocLength sc;
             originalTotalDocs = totalDocuments sc;
             s2 = indexDocuments lib [text1, text2] (sc, st1);
             score1 = calculateScore lib s2 text2 0;
             score2 = calculateScore lib s2 text1 1;
             self1 = calculateScore lib s2 text1 0;
             self2 = calculateScore lib s2 text2 1;
             maxPossibleScore =
               (case self1 of None \<Rightarrow> None | Some u \<Rightarrow> map_option (max u) self2);
             result =
               (case maxPossibleScore of
                  None \<Rightarrow> Some 0
                | Some m \<Rightarrow>
                    if m > 0
                    then map_option (\<lambda>t. t / 2 / m) (js_plus score1 score2)
                    else Some 0)
         in (result,
             ((fst s2)\<lparr>documentStats := originalStats, globalTermFreq := originalGlobalFreq,
                averageDocLength := originalAvgLength, totalDocuments := originalTotalDocs\<rparr>,
              snd s2))))"

text \<open>The corpus state a caller can observe, and the references it rests on.\<close>

definition corpus_state ::
  "BM25Scorer \<times> store \<Rightarrow> DocumentStats list \<times> (string \<Rightarrow> nat) \<times> real \<times> nat" where
  "corpus_state s =
     (case s of (sc, st) \<Rightarrow>
        (arrays st (documentStats sc), tables st (globalTermFreq sc),
         averageDocLength sc, totalDocuments sc))"

definition allocated :: "BM25Scorer \<times> store \<Rightarrow> bool" where
  "allocated s =
     (case s of (sc, st) \<Rightarrow> documentStats sc < next_addr st \<and> globalTermFreq sc < next_addr st)"

section \<open>The BM25 component of a scoring pass (ContextAnalyzer)\<close>

text \<open>
  Of the scoring profile, the keyword list and the BM25 parameters are what the BM25
  component reads. The analyzer owns one scorer, made by its constructor.
\<close>

record ScoringProfile =
  semanticKeywords :: "string list"
  bm25_k1 :: real
  bm25_b :: real

text \<open>\<open>DEFAULT_SCORING_PROFILES.technical\<close>, the constructor's default.\<close>

definition technical :: ScoringProfile where
  "technical = \<lparr>semanticKeywords =
      [''error'', ''bug'', ''fix'', ''implement'', ''create'', ''update'', ''delete'',
       ''refactor'', ''test'', ''deploy'', ''config'', ''install'', ''import'', ''export'',
       ''function'', ''class'', ''method'', ''variable'', ''constant'', ''interface'',
       ''type'', ''debug'', ''compile'', ''build'', ''package'', ''dependency'', ''version'',
       ''branch'', ''commit'', ''merge''],
     bm25_k1 = 1.5, bm25_b = 0.75\<rparr>"

record ContextAnalyzer =
  currentProfile :: ScoringProfile
  bm25Scorer :: BM25Scorer

definition new_ContextAnalyzer :: "ScoringProfile \<Rightarrow> store \<Rightarrow> ContextAnalyzer \<times> store" where
  "new_ContextAnalyzer profile st =
     (case new_BM25Scorer (bm25_k1 profile) (bm25_b profile) st of
        (sc, st1) \<Rightarrow> (\<lparr>currentProfile = profile, bm25Scorer = sc\<rparr>, st1))"

text \<open>\<open>allMessages.slice(max(0, i - w), min(length, i + w + 1))\<close>.\<close>

definition getRecentContext ::
  "nat \<Rightarrow> ConversationMessage list \<Rightarrow> nat \<Rightarrow> ConversationMessage list" where
  "getRecentContext messageIndex allMessages windowSize =
     (let start = messageIndex - windowSize;
          stop = min (length allMessages) (messageIndex + windowSize + 1)
      in take (stop - start) (drop start allMessages))"

definition calculateBM25Score ::
  "nlp \<Rightarrow> ContextAnalyzer \<times> store \<Rightarrow> nat \<Rightarrow> ConversationMessage list \<Rightarrow> real option" where
  "calculateBM25Score lib s messageIndex allMessages =
     (case s of (an, st) \<Rightarrow>
        (let profileKeywords = join '' '' (semanticKeywords (currentProfile an));
             contextMessages = getRecentContext messageIndex allMessages 3;
             contextQuery = join '' '' (map content contextMessages);
             combinedQuery = trim (profileKeywords @ '' '' @ contextQuery)
         in if length combinedQuery = 0 then Some 0.5
            else map_option (\<lambda>score. min 1 (score / 10))
                   (calculateScore lib (bm25Scorer an, st) combinedQuery (int messageIndex))))"

text \<open>
  The BM25 component of every message in one pass of \<open>scoreMessages\<close>, as
  \<open>calculateScoreBreakdown\<close> computes it with the loop index
  (\<open>calculateHybridSemanticScore\<close> uses the index found by identifier, the same
  index when identifiers are distinct). The pass calls no method of the scorer but
  \<open>calculateScore\<close>, which does not write: every call sees the state the analyzer
  holds when the pass begins.
\<close>

definition scoreMessages_bm25 ::
  "nlp \<Rightarrow> ContextAnalyzer \<times> store \<Rightarrow> ConversationContext \<Rightarrow> real option list" where
  "scoreMessages_bm25 lib s context =
     map (\<lambda>index. calculateBM25Score lib s index (messages context))
       [0..<length (messages context)]"

text \<open>
  The formula in the specification's words, for comparison with \<open>calculateScore\<close>:
  \<open>df\<close> is the number of documents that contain the term, and the sum runs over the
  query terms present in the document.
\<close>

definition spec_df :: "nlp \<Rightarrow> string list \<Rightarrow> string \<Rightarrow> nat" where
  "spec_df lib docs term = length (filter (\<lambda>d. term \<in> set (preprocessText lib d)) docs)"

definition spec_idf :: "nlp \<Rightarrow> string list \<Rightarrow> string \<Rightarrow> real" where
  "spec_idf lib docs term =
     ln ((real (length docs) - real (spec_df lib docs term) + 0.5)
           / (real (spec_df lib docs term) + 0.5))"

definition spec_bm25 :: "nlp \<Rightarrow> real \<Rightarrow> real \<Rightarrow> string list \<Rightarrow> string \<Rightarrow> nat \<Rightarrow> real" where
  "spec_bm25 lib k1 b docs query i =
     (let docTerms = preprocessText lib (docs ! i);
          docLen = real (length docTerms);
          avgLen = real (sum_list (map (\<lambda>d. length (preprocessText lib d)) docs))
                     / real (length docs)
      in sum_list
           (map (\<lambda>term.
                   let tf = real (count_list docTerms term)
                   in spec_idf lib docs term * (tf * (k1 + 1))
                        / (tf + k1 * (1 - b + b * (docLen / avgLen))))
                (filter (\<lambda>term. term \<in> set docTerms) (preprocessText lib query))))"

section \<open>Concrete inputs\<close>

definition plain_message :: "string \<Rightarrow> string \<Rightarrow> ConversationMessage" where
  "plain_message ident text =
     \<lparr>msgId = ident, timestamp = 0, msgType = Query, role = User, content = text,
      metadata = \<lparr>tokenCount = 10, fileReferences = [], codeBlocks = [], hasError = False,
        toolsUsed = [], importance = None\<rparr>\<rparr>"

definition score_of :: "real \<Rightarrow> ImportanceScore" where
  "score_of t = \<lparr>total = t, recency = 0, semantic = 0, references = 0, fileRelevance = 0,
     computed = 0\<rparr>"

text \<open>A scored message without files, code or tools.\<close>

definition scored_message ::
  "string \<Rightarrow> MessageType \<Rightarrow> real \<Rightarrow> real \<Rightarrow> ConversationMessage" where
  "scored_message ident ty tokens t =
     \<lparr>msgId = ident, timestamp = 0, msgType = ty, role = User, content = ''text'',
      metadata = \<lparr>tokenCount = tokens, fileReferences = [], codeBlocks = [],
        hasError = False, toolsUsed = [], importance = Some (score_of t)\<rparr>\<rparr>"

text \<open>A message that references one file with a long name and has no text.\<close>

definition long_file_message :: ConversationMessage where
  "long_file_message =
     \<lparr>msgId = ''m1'', timestamp = 0, msgType = File_operation, role = Assistant, content = [],
      metadata = \<lparr>tokenCount = 60, fileReferences = [replicate 200 CHR ''a''],
        codeBlocks = [], hasError = False, toolsUsed = [], importance = None\<rparr>\<rparr>"

definition env0 :: Env where
  "env0 = \<lparr>now = 0, freshPruningId = ''prune_0_a'',
     freshSummaryId = (\<lambda>k. ''summary_0_'' @ replicate k CHR ''a'')\<rparr>"

text \<open>One long query without code: 80000 tokens, four characters of text.\<close>

definition big_query_ctx :: ConversationContext where
  "big_query_ctx = \<lparr>messages =
      [\<lparr>msgId = ''q1'', timestamp = 0, msgType = Query, role = User, content = ''text'',
        metadata = \<lparr>tokenCount = 80000, fileReferences = [], codeBlocks = [], hasError = False,
          toolsUsed = [], importance = None\<rparr>\<rparr>],
     totalTokens = 80000, activeFiles = [], sessionStartTime = 0\<rparr>"

text \<open>A scorer that gives every message the total 0.1.\<close>

definition low_scorer :: scorer where
  "low_scorer message index allMessages = score_of 0.1"

text \<open>An error message of 30 tokens and a code change of 200 tokens.\<close>

definition small_ctx :: ConversationContext where
  "small_ctx = \<lparr>messages =
      [\<lparr>msgId = ''e1'', timestamp = 0, msgType = Error, role = Assistant,
        content = ''Error: TypeError in line 10'',
        metadata = \<lparr>tokenCount = 30, fileReferences = [], codeBlocks = [], hasError = True,
          toolsUsed = [], importance = None\<rparr>\<rparr>,
       \<lparr>msgId = ''c1'', timestamp = 1, msgType = Code_change, role = Assistant,
        content = ''updated the parser'',
        metadata = \<lparr>tokenCount = 200, fileReferences = [],
          codeBlocks = [\<lparr>language = ''ts'', blockContent = ''x'', filePath = None\<rparr>],
          hasError = False, toolsUsed = [], importance = None\<rparr>\<rparr>],
     totalTokens = 230, activeFiles = [], sessionStartTime = 0\<rparr>"

text \<open>A query of 60 tokens with one code fragment.\<close>

definition code_query_ctx :: ConversationContext where
  "code_query_ctx = \<lparr>messages =
      [\<lparr>msgId = ''m2'', timestamp = 0, msgType = Query, role = User,
        content = ''please implement the parser'',
        metadata = \<lparr>tokenCount = 60, fileReferences = [],
          codeBlocks = [\<lparr>language = ''ts'', blockContent = ''x'', filePath = None\<rparr>],
          hasError = False, toolsUsed = [], importance = None\<rparr>\<rparr>],
     totalTokens = 60, activeFiles = [], sessionStartTime = 0\<rparr>"

text \<open>The message of \<open>code_query_ctx\<close> as \<open>low_scorer\<close> scores it.\<close>

definition scored_code_query :: ConversationMessage where
  "scored_code_query =
     \<lparr>msgId = ''m2'', timestamp = 0, msgType = Query, role = User,
      content = ''please implement the parser'',
      metadata = \<lparr>tokenCount = 60, fileReferences = [],
        codeBlocks = [\<lparr>language = ''ts'', blockContent = ''x'', filePath = None\<rparr>],
        hasError = False, toolsUsed = [], importance = Some (score_of 0.1)\<rparr>\<rparr>"

text \<open>
  A stand-in for the two libraries on the words of the inputs below: \<open>cat\<close>,
  \<open>dog\<close> and \<open>bird\<close> are no stop words and are their own Porter stems.
\<close>

definition plain_nlp :: nlp where
  "plain_nlp = \<lparr>removeStopwords = (\<lambda>tokens. tokens), stem = (\<lambda>token. token)\<rparr>"

definition cat_corpus :: "BM25Scorer \<times> store" where
  "cat_corpus = indexDocuments plain_nlp [''cat cat'', ''dog'', ''bird'']
                  (new_BM25Scorer 1.2 0.75 empty_store)"

definition two_message_ctx :: ConversationContext where
  "two_message_ctx = \<lparr>messages =
      [plain_message ''msg1'' ''fix the parser bug'', plain_message ''msg2'' ''parser bug fixed''],
     totalTokens = 20, activeFiles = [], sessionStartTime = 0\<rparr>"

section \<open>Rounding to double precision\<close>

text \<open>
  How \<open>round_double\<close> is evaluated: when \<open>x * 2 ^ k\<close> lies between
  \<open>2 ^ 52\<close> and \<open>2 ^ 53\<close>, the doubles around \<open>x\<close> are the multiples of
  \<open>1 / 2 ^ k\<close>.
\<close>

lemma round_double_scaled:
  assumes "0 < x" and "2 ^ 52 \<le> x * 2 ^ k" and "x * 2 ^ k < 2 ^ 53"
  shows "round_double x = of_int (round_even (x * 2 ^ k)) / 2 ^ k"
proof -
  have p: "(2::real) powr (52 - real k) = 2 ^ 52 / 2 ^ k"
    by (simp add: powr_diff powr_realpow flip: powr_numeral)
  have p1: "(2::real) powr (53 - real k) = 2 ^ 53 / 2 ^ k"
    by (simp add: powr_diff powr_realpow flip: powr_numeral)
  have lo: "2 powr (52 - real k) \<le> x"
    using assms(2) by (simp add: p field_simps)
  have hi: "x < 2 powr (53 - real k)"
    using assms(3) by (simp add: p1 field_simps)
  have "52 - real k \<le> log 2 x"
    using lo assms(1) by (simp add: le_log_iff)
  moreover have "log 2 x < 53 - real k"
    using hi assms(1) by (simp add: log_less_iff)
  ultimately have "\<lfloor>log 2 x\<rfloor> = 52 - int k"
    by (intro floor_unique) simp_all
  then have "\<lfloor>log 2 \<bar>x\<bar>\<rfloor> - 52 = - int k"
    using assms(1) by simp
  then have u: "(2::real) powr of_int (\<lfloor>log 2 \<bar>x\<bar>\<rfloor> - 52) = 1 / 2 ^ k"
    by (simp add: powr_minus powr_realpow divide_inverse)
  have "round_double x = of_int (round_even (x / (1 / 2 ^ k))) * (1 / 2 ^ k)"
    unfolding round_double_def Let_def u using assms(1) by simp
  then show ?thesis by simp
qed

text \<open>
  Whole numbers up to \<open>2 ^ 53\<close> are doubles, so the double sum of two whole numbers
  is their exact sum as long as that is at most \<open>2 ^ 53\<close>. On such token counts the
  running totals of the loops, which are added exactly here, are the totals of the code.
\<close>

lemma round_even_of_int: "round_even (of_int z) = z"
  by (simp add: round_even_def)

lemma is_double_whole:
  assumes "real n \<le> 2 ^ 53"
  shows "is_double (real n)"
proof (cases "n = 0")
  case True
  then show ?thesis by (simp add: is_double_def round_double_def)
next
  case False
  then have pos: "1 \<le> real n" by simp
  define e where "e = \<lfloor>log 2 (real n)\<rfloor>"
  have "0 \<le> log 2 (real n)"
    using pos by simp
  then have e0: "0 \<le> e" by (simp add: e_def)
  have "log 2 (real n) \<le> 53"
    using assms pos by (simp add: log_le_iff powr_realpow flip: powr_numeral)
  then have e53: "e \<le> 53" 
    unfolding e_def by (simp add: floor_le_iff)
  have fl: "\<lfloor>log 2 \<bar>real n\<bar>\<rfloor> = e"
    by (simp add: e_def)
  have lo: "2 powr of_int e \<le> real n"
    using pos by (simp add: e_def le_log_iff [symmetric])
  show ?thesis
  proof (cases "e \<le> 52")
    case True
    define k where "k = nat (52 - e)"
    have "of_int (e - 52) = - real k"
      using True by (simp add: k_def)
    then have u: "(2::real) powr of_int (e - 52) = 1 / 2 ^ k"
      by (simp add: powr_minus powr_realpow divide_inverse)
    have "real n / (1 / 2 ^ k) = of_int (int n * 2 ^ k)"
      by simp
    then have r: "round_even (real n / (1 / 2 ^ k)) = int n * 2 ^ k"
      by (simp only: round_even_of_int)
    have "round_double (real n)
            = of_int (round_even (real n / (1 / 2 ^ k))) * (1 / 2 ^ k)"
      unfolding round_double_def Let_def fl u using \<open>n \<noteq> 0\<close> by simp
    then have "round_double (real n) = of_int (int n * 2 ^ k) * (1 / 2 ^ k)"
      by (simp only: r)
    then show ?thesis
      by (simp add: is_double_def)
  next
    case False
    then have e: "e = 53" using e53 by simp
    have "2 ^ 53 \<le> real n"
      using lo by (simp add: e powr_realpow flip: powr_numeral)
    then have n: "real n = 2 ^ 53" using assms by simp
    have u: "(2::real) powr of_int (e - 52) = 2"
      by (simp add: e)
    have "real n / 2 = of_int (2 ^ 52)"
      by (simp add: n)
    then have r: "round_even (real n / 2) = 2 ^ 52"
      by (simp only: round_even_of_int)
    have "round_double (real n) = of_int (round_even (real n / 2)) * 2"
      unfolding round_double_def Let_def fl u using \<open>n \<noteq> 0\<close> by simp
    then have "round_double (real n) = of_int (2 ^ 52) * 2"
      by (simp only: r)
    then show ?thesis
      by (simp add: is_double_def n)
  qed
qed

lemma whole_sum_exact:
  assumes "a \<in> \<nat>" and "b \<in> \<nat>" and "a + b \<le> 2 ^ 53"
  shows "round_double (a + b) = a + b"
proof -
  have "a + b \<in> \<nat>"
    using assms(1,2) by (rule Nats_add)
  then obtain n where n: "a + b = real n"
    by (rule Nats_cases)
  then have "is_double (real n)"
    using assms(3) by (intro is_double_whole) simp
  then show ?thesis
    by (simp add: is_double_def n)
qed

text \<open>The doubles that the literals of the default strategies denote.\<close>

lemma double_0_2: "round_double 0.2 = 3602879701896397 / 2 ^ 54"
  using round_double_scaled [of "0.2" 55] by (simp add: round_even_def)

lemma double_0_3: "round_double 0.3 = 5404319552844595 / 2 ^ 54"
  using round_double_scaled [of "0.3" 54] by (simp add: round_even_def)

lemma double_0_4: "round_double 0.4 = 3602879701896397 / 2 ^ 53"
  using round_double_scaled [of "0.4" 54] by (simp add: round_even_def)

lemma double_0_5: "round_double 0.5 = 1 / 2"
  using round_double_scaled [of "0.5" 53] by (simp add: round_even_def)

lemma double_0_7: "round_double 0.7 = 3152519739159347 / 2 ^ 52"
  using round_double_scaled [of "0.7" 53] by (simp add: round_even_def)

text \<open>
  The products of the default strategies. Most are the whole numbers of exact arithmetic;
  \<open>90 * 0.7\<close> is not: it is the double below 63, so that 63 tokens exceed it.
\<close>

lemma aggressive_numbers:
  "maxTokens aggressive = 50000"
  "alwaysPreserve aggressive = [Error, Code_change]"
  "js_mul 50000 (preserveRatio aggressive) = 15000"
  "\<lfloor>js_mul 1 (preserveRatio aggressive)\<rfloor> = 0"
proof -
  have e: "round_double (5404319552844595 / 18014398509481984)
             = 5404319552844595 / 18014398509481984"
    using round_double_scaled [of "5404319552844595 / 18014398509481984" 54]
    by (simp add: round_even_def)
  show "maxTokens aggressive = 50000"
    by (simp add: aggressive_def)
  show "alwaysPreserve aggressive = [Error, Code_change]"
    by (simp add: aggressive_def)
  show "js_mul 50000 (preserveRatio aggressive) = 15000"
    unfolding js_mul_def aggressive_def double_0_3
    using round_double_scaled [of "50000 * (5404319552844595 / 2 ^ 54)" 39]
    by (simp add: round_even_def)
  show "\<lfloor>js_mul 1 (preserveRatio aggressive)\<rfloor> = 0"
    unfolding js_mul_def aggressive_def double_0_3 by (simp add: e)
qed

lemma balanced_numbers:
  "maxTokens balanced = 75000"
  "alwaysPreserve balanced = [Error, Code_change, File_operation]"
  "importanceThreshold balanced = 1 / 2"
  "js_mul 75000 (preserveRatio balanced) = 37500"
  "js_mul 75000 (summaryRatio balanced) = 22500"
proof -
  show "maxTokens balanced = 75000"
    by (simp add: balanced_def)
  show "alwaysPreserve balanced = [Error, Code_change, File_operation]"
    by (simp add: balanced_def)
  show "importanceThreshold balanced = 1 / 2"
    unfolding balanced_def double_0_5 by simp
  show "js_mul 75000 (preserveRatio balanced) = 37500"
    unfolding js_mul_def balanced_def double_0_5
    using round_double_scaled [of "37500" 37]
    by (simp add: round_even_def)
  show "js_mul 75000 (summaryRatio balanced) = 22500"
    unfolding js_mul_def balanced_def double_0_3
    using round_double_scaled [of "75000 * (5404319552844595 / 2 ^ 54)" 38]
    by (simp add: round_even_def)
qed

lemma conservative_numbers:
  "maxTokens conservative = 100000"
  "alwaysPreserve conservative = [Error, Code_change, File_operation, Tool_use]"
  "js_mul 100000 (preserveRatio conservative) = 70000"
  "js_mul 100000 (summaryRatio conservative) = 20000"
  "\<lfloor>js_mul 1 (preserveRatio conservative)\<rfloor> = 0"
  "js_mul 90 (preserveRatio conservative) = 63 - 1 / 2 ^ 47"
proof -
  have e: "round_double (3152519739159347 / 4503599627370496)
             = 3152519739159347 / 4503599627370496"
    using round_double_scaled [of "3152519739159347 / 4503599627370496" 53]
    by (simp add: round_even_def)
  show "maxTokens conservative = 100000"
    by (simp add: conservative_def)
  show "alwaysPreserve conservative = [Error, Code_change, File_operation, Tool_use]"
    by (simp add: conservative_def)
  show "js_mul 100000 (preserveRatio conservative) = 70000"
    unfolding js_mul_def conservative_def double_0_7
    using round_double_scaled [of "100000 * (3152519739159347 / 2 ^ 52)" 36]
    by (simp add: round_even_def)
  show "js_mul 100000 (summaryRatio conservative) = 20000"
    unfolding js_mul_def conservative_def double_0_2
    using round_double_scaled [of "100000 * (3602879701896397 / 2 ^ 54)" 38]
    by (simp add: round_even_def)
  show "\<lfloor>js_mul 1 (preserveRatio conservative)\<rfloor> = 0"
    unfolding js_mul_def conservative_def double_0_7 by (simp add: e)
  show "js_mul 90 (preserveRatio conservative) = 63 - 1 / 2 ^ 47"
    unfolding js_mul_def conservative_def double_0_7
    using round_double_scaled [of "90 * (3152519739159347 / 2 ^ 52)" 47]
    by (simp add: round_even_def)
qed

lemma is_double_balanced:
  "is_double (maxTokens balanced)"
  "is_double (preserveRatio balanced)"
proof -
  have e: "round_double (1 / 2) = 1 / 2"
    using round_double_scaled [of "1 / 2" 53] by (simp add: round_even_def)
  show "is_double (maxTokens balanced)"
    unfolding is_double_def balanced_def
    using round_double_scaled [of "75000" 36] by (simp add: round_even_def)
  show "is_double (preserveRatio balanced)"
    unfolding is_double_def balanced_def double_0_5 by (simp add: e)
qed

section \<open>Properties of the undo buffer\<close>

lemma map_get_Some_iff: "(\<exists>d. map_get h k = Some d) \<longleftrightarrow> k \<in> set (map_keys h)"
proof -
  have "(map_of h k = None) \<longleftrightarrow> k \<notin> fst ` set h"
    by (rule map_of_eq_None_iff)
  then show ?thesis
    by (cases "map_of h k") (simp_all add: map_get_def map_keys_def)
qed

lemma map_keys_delete: "set (map_keys (map_delete k h)) = set (map_keys h) - {k}"
  by (auto simp: map_keys_def map_delete_def)

lemma rollback_fst: "fst (rollback k h) \<longleftrightarrow> k \<in> set (map_keys h)"
proof (cases "map_get h k")
  case None
  then have "k \<notin> set (map_keys h)"
    using map_get_Some_iff [of h k] by simp
  with None show ?thesis by (simp add: rollback_def)
next
  case (Some d)
  then have "k \<in> set (map_keys h)"
    using map_get_Some_iff [of h k] by blast
  with Some show ?thesis by (simp add: rollback_def)
qed

lemma rollback_snd_keys:
  "set (map_keys (snd (rollback k h))) = set (map_keys h) - {k}"
proof (cases "map_get h k")
  case None
  then have "k \<notin> set (map_keys h)"
    using map_get_Some_iff [of h k] by simp
  with None show ?thesis by (simp add: rollback_def)
next
  case (Some d)
  then show ?thesis by (simp add: rollback_def map_keys_delete)
qed

lemma rollback_unknown_unchanged: "\<not> fst (rollback k h) \<Longrightarrow> snd (rollback k h) = h"
  by (cases "map_get h k") (simp_all add: rollback_def)

text \<open>
  C9. After any sequence of pruning and undo operations, undo of an identifier reports
  success exactly when a record with that identifier is in the buffer; an unknown or
  consumed identifier gives the boolean \<open>False\<close> and leaves the buffer as it was; a
  successful undo removes the record, so a second undo of the same identifier fails.
\<close>

theorem rollback_contract:
  "fst (rollback k (engine_run ops)) = (k \<in> set (map_keys (engine_run ops)))
   \<and> (fst (rollback k (engine_run ops)) \<longrightarrow>
        k \<notin> set (map_keys (snd (rollback k (engine_run ops))))
        \<and> fst (rollback k (snd (rollback k (engine_run ops)))) = False)
   \<and> (\<not> fst (rollback k (engine_run ops)) \<longrightarrow>
        snd (rollback k (engine_run ops)) = engine_run ops)"
proof -
  let ?h = "engine_run ops"
  have a: "fst (rollback k ?h) = (k \<in> set (map_keys ?h))"
    by (rule rollback_fst)
  have b: "k \<notin> set (map_keys (snd (rollback k ?h)))"
    by (simp add: rollback_snd_keys)
  then have c: "fst (rollback k (snd (rollback k ?h))) = False"
    by (simp add: rollback_fst)
  show ?thesis
    using a b c rollback_unknown_unchanged [of k ?h] by blast
qed

theorem rollback_contract_witness:
  "fst (rollback ''prune_0_a'' (engine_run [OpPrune low_scorer env0 small_ctx balanced]))
   \<and> fst (rollback ''prune_0_a''
         (snd (rollback ''prune_0_a''
            (engine_run [OpPrune low_scorer env0 small_ctx balanced])))) = False
   \<and> \<not> fst (rollback ''prune_0_z'' (engine_run [OpPrune low_scorer env0 small_ctx balanced]))
   \<and> snd (rollback ''prune_0_z'' (engine_run [OpPrune low_scorer env0 small_ctx balanced]))
       = engine_run [OpPrune low_scorer env0 small_ctx balanced]"
proof -
  have run: "map_keys (engine_run [OpPrune low_scorer env0 small_ctx balanced])
               = [''prune_0_a'']"
    by (simp add: engine_run_def prune_def Let_def storeRollbackData_def
        MAX_ROLLBACK_HISTORY_def map_keys_def env0_def)
  have present:
    "fst (rollback ''prune_0_a'' (engine_run [OpPrune low_scorer env0 small_ctx balanced]))"
    by (simp add: rollback_fst run)
  have absent:
    "\<not> fst (rollback ''prune_0_z'' (engine_run [OpPrune low_scorer env0 small_ctx balanced]))"
    by (simp add: rollback_fst run)
  show ?thesis
    using present absent
      rollback_contract [of "''prune_0_a''" "[OpPrune low_scorer env0 small_ctx balanced]"]
      rollback_contract [of "''prune_0_z''" "[OpPrune low_scorer env0 small_ctx balanced]"]
    by blast
qed

section \<open>Redundancy of identical messages\<close>

lemma contentSimilarity_loop_same:
  assumes "\<forall>m \<in> set ms. normalizeContent (content m) = c"
  shows "contentSimilarity_loop ms seen dup =
           (if c \<in> set seen \<or> ms = [] then dup + length ms else dup + length ms - 1)"
  using assms
proof (induction ms arbitrary: seen dup)
  case Nil
  then show ?case by simp
next
  case (Cons m ms)
  then have m: "normalizeContent (content m) = c"
    and rest: "\<forall>x \<in> set ms. normalizeContent (content x) = c"
    by simp_all
  show ?case
  proof (cases "c \<in> set seen")
    case True
    then show ?thesis
      using Cons.IH [OF rest, of seen "dup + 1"] m by simp
  next
    case False
    then show ?thesis
      using Cons.IH [OF rest, of "seen @ [c]" dup] m by simp
  qed
qed

text \<open>
  C6, as the code has it. When every message of a non-empty context has the same
  content, the content-duplication component is \<open>(n - 1) / n\<close> for \<open>n\<close> messages: the
  first message is not a duplicate of an earlier one.
\<close>

theorem contentSimilarity_identical:
  assumes "msgs \<noteq> []"
    and "\<forall>m \<in> set msgs. content m = text"
  shows "calculateContentSimilarity msgs
           = (real (length msgs) - 1) / real (length msgs)"
proof -
  have same: "\<forall>m \<in> set msgs. normalizeContent (content m) = normalizeContent text"
    using assms(2) by simp
  have "contentSimilarity_loop msgs [] 0 = length msgs - 1"
    using contentSimilarity_loop_same [OF same, of "[]" 0] assms(1) by simp
  moreover have "length msgs \<ge> 1"
    using assms(1) by (cases msgs) simp_all
  ultimately show ?thesis
    by (simp add: calculateContentSimilarity_def of_nat_diff)
qed

theorem contentSimilarity_identical_witness:
  "calculateContentSimilarity
     [plain_message ''m1'' ''same text'', plain_message ''m2'' ''same text'',
      plain_message ''m3'' ''same text''] = 2 / 3"
  using contentSimilarity_identical
    [of "[plain_message ''m1'' ''same text'', plain_message ''m2'' ''same text'',
          plain_message ''m3'' ''same text'']" "''same text''"]
  by (simp add: plain_message_def)

text \<open>
  The specification's value 1.0 for this component is not what the code returns for two
  messages with the same content: it returns one half.
\<close>

theorem contentSimilarity_identical_counterexample:
  "calculateContentSimilarity [plain_message ''m1'' ''ok'', plain_message ''m2'' ''ok''] \<noteq> 1"
  by (simp add: calculateContentSimilarity_def plain_message_def)

section \<open>The three partitions\<close>

lemma categorize_loop_mset:
  "categorize_loop strategy ms p s r t = (p', s', r', t') \<Longrightarrow>
     mset p' + mset s' + mset r' = mset p + mset s + mset r + mset ms"
proof (induction ms arbitrary: p s r t)
  case Nil
  then show ?case by simp
next
  case (Cons m ms)
  show ?case
    using Cons.prems Cons.IH
    by (auto simp: Let_def split: if_splits dest!: Cons.IH)
qed

lemma summary_loop_mset:
  "summary_loop budget ms f r t = (f', r') \<Longrightarrow> mset f' + mset r' = mset f + mset r + mset ms"
proof (induction ms arbitrary: f r t)
  case Nil
  then show ?case by simp
next
  case (Cons m ms)
  show ?case
    using Cons.prems by (auto split: if_splits dest!: Cons.IH)
qed

lemma budget_correction_mset:
  assumes "budget_correction strategy (p, s, r, t) = (p', s', r')"
  shows "mset p' + mset s' + mset r' = mset p + mset s + mset r"
proof (cases "t > js_mul (maxTokens strategy) (preserveRatio strategy)")
  case False
  with assms show ?thesis
    by (simp add: budget_correction_def)
next
  case True
  define k where
    "k = splice_start (length p) \<lfloor>js_mul (real (length p)) (preserveRatio strategy)\<rfloor>"
  have p': "p' = take k p"
    and s': "s' = s @ filter isSummarizable (drop k p)"
    and r': "r' = r @ filter (\<lambda>m. \<not> isSummarizable m) (drop k p)"
    using assms True by (simp_all add: budget_correction_def Let_def k_def)
  have "mset (filter isSummarizable (drop k p))
        + mset (filter (\<lambda>m. \<not> isSummarizable m) (drop k p)) = mset (drop k p)"
    by simp
  moreover have "mset (take k p) + mset (drop k p) = mset p"
    by (metis append_take_drop_id mset_append)
  ultimately have "mset (take k p) + (mset (filter isSummarizable (drop k p))
        + mset (filter (\<lambda>m. \<not> isSummarizable m) (drop k p))) = mset p"
    by simp
  then show ?thesis
    unfolding p' s' r' by (simp add: ac_simps)
qed

lemma restoreOriginalOrder_mset [simp]: "mset (restoreOriginalOrder ms orig) = mset ms"
  by (simp add: restoreOriginalOrder_def)

lemma categorizeMessages_mset:
  "mset (preserved (categorizeMessages msgs strategy))
   + mset (toSummarize (categorizeMessages msgs strategy))
   + mset (toRemove (categorizeMessages msgs strategy)) = mset msgs"
proof -
  obtain p s r t where loop:
    "categorize_loop strategy (sortByImportance msgs) [] [] [] 0 = (p, s, r, t)"
    by (metis prod_cases4)
  obtain p1 s1 r1 where corr: "budget_correction strategy (p, s, r, t) = (p1, s1, r1)"
    by (metis prod_cases3)
  obtain f r2 where pool:
    "summary_loop (js_mul (maxTokens strategy) (summaryRatio strategy))
       (sortByImportance s1) [] r1 0 = (f, r2)"
    by (metis prod.exhaust)
  have "mset p + mset s + mset r = mset msgs"
    using categorize_loop_mset [OF loop] by (simp add: sortByImportance_def)
  moreover have "mset p1 + mset s1 + mset r1 = mset p + mset s + mset r"
    by (rule budget_correction_mset [OF corr])
  moreover have "mset f + mset r2 = mset r1 + mset s1"
    using summary_loop_mset [OF pool] by (simp add: sortByImportance_def)
  ultimately have "mset p1 + (mset f + mset r2) = mset msgs"
    by (simp add: ac_simps)
  then show ?thesis
    by (simp add: categorizeMessages_def loop corr pool add.assoc)
qed

text \<open>
  C1. For a non-empty list of messages with pairwise distinct identifiers and any
  strategy, the identifier sets of the preserved, summarize-source and discarded
  partitions are pairwise disjoint and their union is the identifier set of the input.
\<close>

theorem partitions_disjoint_cover:
  assumes "msgs \<noteq> []"
    and "distinct (map msgId msgs)"
  shows "set (map msgId (preserved (categorizeMessages msgs strategy)))
           \<inter> set (map msgId (toSummarize (categorizeMessages msgs strategy))) = {}
       \<and> set (map msgId (preserved (categorizeMessages msgs strategy)))
           \<inter> set (map msgId (toRemove (categorizeMessages msgs strategy))) = {}
       \<and> set (map msgId (toSummarize (categorizeMessages msgs strategy)))
           \<inter> set (map msgId (toRemove (categorizeMessages msgs strategy))) = {}
       \<and> set (map msgId (preserved (categorizeMessages msgs strategy)))
           \<union> set (map msgId (toSummarize (categorizeMessages msgs strategy)))
           \<union> set (map msgId (toRemove (categorizeMessages msgs strategy)))
         = set (map msgId msgs)"
proof -
  let ?c = "categorizeMessages msgs strategy"
  let ?all = "preserved ?c @ toSummarize ?c @ toRemove ?c"
  have "mset ?all = mset msgs"
    using categorizeMessages_mset [of msgs strategy] by (simp add: add.assoc)
  then have ids: "mset (map msgId ?all) = mset (map msgId msgs)"
    by (metis mset_map)
  then have "distinct (map msgId ?all)"
    using assms(2) by (metis mset_eq_imp_distinct_iff)
  moreover have "set (map msgId ?all) = set (map msgId msgs)"
    using ids by (rule mset_eq_setD)
  ultimately show ?thesis
    by (simp add: Int_Un_distrib Un_assoc)
qed

theorem partitions_disjoint_cover_witness:
  "set (map msgId (preserved (categorizeMessages
      [scored_message ''m1'' Query 40 0.2, scored_message ''m2'' Error 30 0.9] balanced)))
     \<inter> set (map msgId (toRemove (categorizeMessages
      [scored_message ''m1'' Query 40 0.2, scored_message ''m2'' Error 30 0.9] balanced))) = {}
   \<and> set (map msgId (preserved (categorizeMessages
      [scored_message ''m1'' Query 40 0.2, scored_message ''m2'' Error 30 0.9] balanced)))
     \<union> set (map msgId (toSummarize (categorizeMessages
      [scored_message ''m1'' Query 40 0.2, scored_message ''m2'' Error 30 0.9] balanced)))
     \<union> set (map msgId (toRemove (categorizeMessages
      [scored_message ''m1'' Query 40 0.2, scored_message ''m2'' Error 30 0.9] balanced)))
     = {''m1'', ''m2''}"
  using partitions_disjoint_cover
    [of "[scored_message ''m1'' Query 40 0.2, scored_message ''m2'' Error 30 0.9]" balanced]
  by (simp add: scored_message_def insert_commute)

section \<open>Always-preserve types and the budget correction\<close>

lemma categorize_loop_preserved_grows:
  "categorize_loop strategy ys p s r t = (p', s', r', t') \<Longrightarrow> set p \<subseteq> set p'"
proof (induction ys arbitrary: p s r t)
  case Nil
  then show ?case by simp
next
  case (Cons y ys)
  from Cons.prems show ?case
    by (auto simp: Let_def split: if_splits dest!: Cons.IH)
qed

text \<open>
  The first loop does what the strategy's field says: a message of an always-preserve
  type is pushed to the preserved array whatever its score and the running total.
\<close>

lemma first_pass_keeps:
  "categorize_loop strategy ms p s r t = (p', s', r', t') \<Longrightarrow>
   m \<in> set ms \<Longrightarrow> msgType m \<in> set (alwaysPreserve strategy) \<Longrightarrow> m \<in> set p'"
proof (induction ms arbitrary: p s r t)
  case Nil
  then show ?case by simp
next
  case (Cons x xs)
  show ?case
  proof (cases "m = x")
    case True
    then have "categorize_loop strategy xs (p @ [m]) s r (t + tokenCount (metadata m))
                 = (p', s', r', t')"
      using Cons.prems(1,3) by (simp add: Let_def)
    then show ?thesis
      using categorize_loop_preserved_grows by fastforce
  next
    case False
    then have "m \<in> set xs" using Cons.prems(2) by simp
    then show ?thesis
      using Cons.prems(1,3) Cons.IH
      by (auto simp: Let_def split: if_splits)
  qed
qed

text \<open>
  C2. The specification: a message whose type is in the strategy's always-preserve set
  ends in the preserved partition, whatever its score and the budget, and the budget
  correction never demotes it. The code departs from it. One error message of 20000
  tokens under the default aggressive strategy (errors are always preserved; 50000 tokens, preserve
  ratio 0.3): the first loop preserves it, the budget correction then splices it out
  (20000 > 15000, split point \<open>floor (1 * 0.3) = 0\<close>), and since an error is not
  summarizable it ends in the discarded partition. This holds for every score \<open>t\<close>.
\<close>

theorem always_preserve_demoted:
  "preserved (categorizeMessages [scored_message ''e1'' Error 20000 t] aggressive) = []
   \<and> toSummarize (categorizeMessages [scored_message ''e1'' Error 20000 t] aggressive) = []
   \<and> toRemove (categorizeMessages [scored_message ''e1'' Error 20000 t] aggressive)
       = [scored_message ''e1'' Error 20000 t]
   \<and> Error \<in> set (alwaysPreserve aggressive)"
  by (simp add: categorizeMessages_def sortByImportance_def aggressive_numbers scored_message_def
      budget_correction_def splice_start_def isSummarizable_def restoreOriginalOrder_def Let_def)

section \<open>Length of the summary text\<close>

lemma lastIndexOf_from_bound:
  "found < i \<Longrightarrow> lastIndexOf_from s c i found < i + int (length s)
      \<and> (lastIndexOf_from s c i found = found \<or> i \<le> lastIndexOf_from s c i found)"
proof (induction s arbitrary: i found)
  case Nil
  then show ?case by simp
next
  case (Cons x xs)
  show ?case
  proof (cases "x = c")
    case True
    then show ?thesis using Cons.IH [of i "i + 1"] by force
  next
    case False
    then show ?thesis using Cons.IH [of found "i + 1"] Cons.prems by force
  qed
qed

lemma lastIndexOf_less: "lastIndexOf s c < int (length s)"
  using lastIndexOf_from_bound [of "- 1" 0 s c] by (simp add: lastIndexOf_def)

text \<open>What the code guarantees: the text is at most three characters over the budget.\<close>

lemma truncateSummary_length: "length (truncateSummary s n) \<le> n + 3"
proof (cases "length s \<le> n")
  case True
  then show ?thesis by (simp add: truncateSummary_def)
next
  case False
  let ?t = "take n s"
  let ?e = "max (max (lastIndexOf ?t CHR ''.'') (lastIndexOf ?t CHR ''!''))
              (lastIndexOf ?t CHR ''?'')"
  have "lastIndexOf ?t c < int n" for c
    using lastIndexOf_less [of ?t c] False by simp
  then have "?e < int n" by simp
  then have "nat (?e + 1) \<le> n" by linarith
  then show ?thesis
    using False by (simp add: truncateSummary_def Let_def)
qed

lemma generateSummaryContent_length:
  "length (generateSummaryContent ms lev) \<le> MAX_SUMMARY_LENGTH lev + 3"
  by (simp add: generateSummaryContent_def Let_def truncateSummary_length)

text \<open>
  C7. The specification: the summary text never exceeds the level's budget (200, 500,
  1000 characters); it is cut at the last sentence terminator past 70 percent of the
  budget, else cut at the budget with an ellipsis. The code follows the cut rule but
  departs from the bound. A segment of one message that references a file with a name of
  200 letters: the text before truncation is
  \<open>File operations: worked on aaa...a. Outcome: in progress\<close>; its first 200 characters
  hold no sentence terminator, so the code returns them followed by \<open>...\<close>: 203
  characters for the budget of 200.
\<close>

theorem summary_exceeds_budget:
  "length (generateSummaryContent [long_file_message] Immediate) = 203
   \<and> MAX_SUMMARY_LENGTH Immediate = 200"
  by code_simp

section \<open>Summaries of a pruning operation\<close>

lemma createSummary_Some:
  "createSummary env k seg lev = Some s \<Longrightarrow>
     level s = lev \<and> originalMessageIds s = map msgId seg \<and> seg \<noteq> []"
  by (auto simp: createSummary_def Let_def split: if_splits)

lemma createSummaries_loop_mem:
  "s \<in> set (createSummaries_loop env lev segs acc) \<Longrightarrow>
     s \<in> set acc \<or> (\<exists>seg \<in> set segs. \<exists>k. createSummary env k seg lev = Some s)"
proof (induction segs arbitrary: acc)
  case Nil
  then show ?case by simp
next
  case (Cons g gs)
  show ?case
  proof (cases "createSummary env (length acc) g lev")
    case None
    then show ?thesis using Cons.prems Cons.IH [of acc] by auto
  next
    case (Some x)
    then show ?thesis using Cons.prems Cons.IH [of "acc @ [x]"] by auto
  qed
qed

lemma segmentByTopic_loop_bounds:
  "\<forall>g \<in> set segments. 1 \<le> length g \<and> length g \<le> 10 \<Longrightarrow> length cur < 10 \<Longrightarrow>
     \<forall>g \<in> set (segmentByTopic_loop ms segments cur lastFiles). 1 \<le> length g \<and> length g \<le> 10"
proof (induction ms arbitrary: segments cur lastFiles)
  case Nil
  then show ?case by (auto simp: Suc_le_eq)
next
  case (Cons m ms)
  let ?files = "new_Set (fileReferences (metadata m))"
  let ?cut = "hasSignificantFileContextChange lastFiles ?files \<and> length cur > 0"
  let ?segs1 = "if ?cut then segments @ [cur] else segments"
  let ?cur1 = "(if ?cut then [] else cur) @ [m]"
  have segs1: "\<forall>g \<in> set ?segs1. 1 \<le> length g \<and> length g \<le> 10"
    using Cons.prems by (auto simp: Suc_le_eq)
  have cur1: "1 \<le> length ?cur1 \<and> length ?cur1 \<le> 10"
    using Cons.prems(2) by auto
  show ?case
  proof (cases "length ?cur1 \<ge> 10")
    case True
    have "\<forall>g \<in> set (?segs1 @ [?cur1]). 1 \<le> length g \<and> length g \<le> 10"
      using segs1 cur1 by auto
    then have "\<forall>g \<in> set (segmentByTopic_loop ms (?segs1 @ [?cur1]) [] []).
                 1 \<le> length g \<and> length g \<le> 10"
      by (rule Cons.IH) simp
    then show ?thesis using True by (simp add: Let_def)
  next
    case False
    then have "length ?cur1 < 10" by simp
    with segs1 have "\<forall>g \<in> set (segmentByTopic_loop ms ?segs1 ?cur1 (new_Set (lastFiles @ ?files))).
                 1 \<le> length g \<and> length g \<le> 10"
      by (rule Cons.IH)
    then show ?thesis using False by (simp add: Let_def)
  qed
qed

lemma segmentByTopic_bounds:
  "\<forall>g \<in> set (segmentByTopic ms). 1 \<le> length g \<and> length g \<le> 10"
  unfolding segmentByTopic_def by (rule segmentByTopic_loop_bounds) simp_all

text \<open>
  C10. The summaries of a pruning operation are those of the level \<open>'session'\<close>,
  whatever the strategy: each carries that level and stands for one segment of the
  topic-continuity segmentation of the admitted pool, of one to ten messages.
\<close>

theorem prune_summaries_session:
  "summariesCreated (fst (prune f env h ctx strategy))
     = createSummaries env (toSummarize (categorizeMessages (scoreMessages f ctx) strategy)) Session
   \<and> (\<forall>s \<in> set (summariesCreated (fst (prune f env h ctx strategy))).
        level s = Session
        \<and> (\<exists>seg \<in> set (segmentByTopic
                           (toSummarize (categorizeMessages (scoreMessages f ctx) strategy))).
              originalMessageIds s = map msgId seg)
        \<and> 1 \<le> length (originalMessageIds s) \<and> length (originalMessageIds s) \<le> 10)"
proof -
  let ?pool = "toSummarize (categorizeMessages (scoreMessages f ctx) strategy)"
  have eq: "summariesCreated (fst (prune f env h ctx strategy))
              = createSummaries env ?pool Session"
    by (simp add: prune_def Let_def)
  have "level s = Session
        \<and> (\<exists>seg \<in> set (segmentByTopic ?pool). originalMessageIds s = map msgId seg)
        \<and> 1 \<le> length (originalMessageIds s) \<and> length (originalMessageIds s) \<le> 10"
    if "s \<in> set (createSummaries env ?pool Session)" for s
  proof -
    from that obtain seg k where seg: "seg \<in> set (segmentByTopic ?pool)"
      and mk: "createSummary env k seg Session = Some s"
      using createSummaries_loop_mem [of s env Session "segmentByTopic ?pool" "[]"]
      by (auto simp: createSummaries_def)
    from createSummary_Some [OF mk] have "level s = Session"
      and ids: "originalMessageIds s = map msgId seg" by simp_all
    moreover have "1 \<le> length seg \<and> length seg \<le> 10"
      using segmentByTopic_bounds seg by blast
    ultimately show ?thesis using seg by auto
  qed
  with eq show ?thesis by simp
qed

lemma scored_code_query_text:
  "generateSummaryContent [scored_code_query] Session
     = ''Activities: implementation. Code changes: ts code. Outcome: in progress''"
  by code_simp

lemma scored_code_query_pool:
  "categorizeMessages [scored_code_query] balanced
     = \<lparr>preserved = [], toRemove = [], toSummarize = [scored_code_query]\<rparr>"
  by (simp add: categorizeMessages_def sortByImportance_def balanced_numbers
      scored_code_query_def importanceTotal_def score_of_def budget_correction_def
      splice_start_def isSummarizable_def restoreOriginalOrder_def Let_def)

lemma scored_code_query_summaries:
  "createSummaries env0 [scored_code_query] Session
     = [\<lparr>summaryId = ''summary_0_'', level = Session,
         summaryText = ''Activities: implementation. Code changes: ts code. Outcome: in progress'',
         originalMessageIds = [''m2''], tokensSaved = 42, summaryTimestamp = 0\<rparr>]"
proof -
  have seg: "segmentByTopic [scored_code_query] = [[scored_code_query]]"
    by (simp add: segmentByTopic_def new_Set_def hasSignificantFileContextChange_def Let_def)
  have nonblank: "trim ''Activities: implementation. Code changes: ts code. Outcome: in progress''
                    \<noteq> []"
    by (simp add: trim_def is_space_def)
  have saved: "calculateTokensSaved [scored_code_query]
                 ''Activities: implementation. Code changes: ts code. Outcome: in progress'' = 42"
    by (simp add: calculateTokensSaved_def scored_code_query_def)
  show ?thesis
    by (simp add: createSummaries_def seg createSummary_def scored_code_query_text nonblank
        saved Let_def)
       (simp add: env0_def scored_code_query_def)
qed

theorem prune_summaries_session_witness:
  "map level (summariesCreated (fst (prune low_scorer env0 [] code_query_ctx balanced)))
     = [Session]
   \<and> map originalMessageIds
         (summariesCreated (fst (prune low_scorer env0 [] code_query_ctx balanced)))
     = [[''m2'']]"
proof -
  have sc: "scoreMessages low_scorer code_query_ctx = [scored_code_query]"
    by (simp add: scoreMessages_def code_query_ctx_def low_scorer_def scored_code_query_def)
  have "summariesCreated (fst (prune low_scorer env0 [] code_query_ctx balanced))
          = createSummaries env0
              (toSummarize (categorizeMessages (scoreMessages low_scorer code_query_ctx) balanced))
              Session"
    using prune_summaries_session [of low_scorer env0 "[]" code_query_ctx balanced] by blast
  then show ?thesis
    by (simp add: sc scored_code_query_pool scored_code_query_summaries)
qed

section \<open>Pruning under a budget above the total\<close>

lemma calculateTotalTokens_sum:
  "calculateTotalTokens ms = sum_list (map (\<lambda>m. tokenCount (metadata m)) ms)"
proof -
  have "foldl (\<lambda>t msg. t + tokenCount (metadata msg)) a ms
          = a + sum_list (map (\<lambda>m. tokenCount (metadata m)) ms)" for a
    by (induction ms arbitrary: a) simp_all
  then show ?thesis by (simp add: calculateTotalTokens_def)
qed

lemma calculateEnhancedTokenCount_messages:
  "calculateEnhancedTokenCount ctx = calculateTotalTokens (messages ctx)"
  by (simp add: calculateEnhancedTokenCount_def calculateTotalTokens_def)

lemma calculateTotalTokens_mset:
  "mset xs = mset ys \<Longrightarrow> calculateTotalTokens xs = calculateTotalTokens ys"
proof -
  assume "mset xs = mset ys"
  then have "mset (map (\<lambda>m. tokenCount (metadata m)) xs)
           = mset (map (\<lambda>m. tokenCount (metadata m)) ys)"
    by (metis mset_map)
  then have "sum_mset (mset (map (\<lambda>m. tokenCount (metadata m)) xs))
           = sum_mset (mset (map (\<lambda>m. tokenCount (metadata m)) ys))"
    by simp
  then show ?thesis
    by (simp only: calculateTotalTokens_sum sum_mset_sum_list)
qed

lemma categorize_loop_all_preserved:
  assumes "\<forall>m \<in> set ms. 0 \<le> tokenCount (metadata m)"
    and "\<forall>m \<in> set ms. msgType m \<in> set (alwaysPreserve st)
                       \<or> importanceThreshold st \<le> importanceTotal m"
    and "t + calculateTotalTokens ms \<le> maxTokens st"
  shows "categorize_loop st ms p s r t = (p @ ms, s, r, t + calculateTotalTokens ms)"
  using assms
proof (induction ms arbitrary: p t)
  case Nil
  then show ?case by (simp add: calculateTotalTokens_sum)
next
  case (Cons m ms)
  have rest_nonneg: "0 \<le> calculateTotalTokens ms"
    using Cons.prems(1) by (auto simp: calculateTotalTokens_sum intro!: sum_list_nonneg)
  have split: "calculateTotalTokens (m # ms) = tokenCount (metadata m) + calculateTotalTokens ms"
    by (simp add: calculateTotalTokens_sum)
  have fits: "t + tokenCount (metadata m) \<le> maxTokens st"
    using Cons.prems(3) rest_nonneg split by linarith
  have keep: "msgType m \<in> set (alwaysPreserve st) \<or> importanceThreshold st \<le> importanceTotal m"
    using Cons.prems(2) by simp
  have "categorize_loop st ms (p @ [m]) s r (t + tokenCount (metadata m))
          = ((p @ [m]) @ ms, s, r, (t + tokenCount (metadata m)) + calculateTotalTokens ms)"
    using Cons.prems split by (intro Cons.IH) auto
  then show ?case
    using fits keep split by (auto simp: Let_def)
qed

lemma scoreMessages_tokens:
  "map (\<lambda>m. tokenCount (metadata m)) (scoreMessages f ctx)
     = map (\<lambda>m. tokenCount (metadata m)) (messages ctx)"
  by (auto simp: scoreMessages_def intro!: nth_equalityI)

lemma createSummaries_empty: "createSummaries env [] lev = []"
  by (cases lev)
     (simp_all add: createSummaries_def segmentByInteraction_def segmentByTopic_def
        segmentByFileContext_def)

text \<open>
  C3, as the code has it. A budget above the total is not enough for a no-op: a message
  is kept only if its type is always preserved or its score reaches the threshold, and
  the preserved set is cut back when its tokens exceed the product
  \<open>maxTokens * preserveRatio\<close>, which the code computes in double precision
  (\<open>js_mul\<close>). Take token counts that are whole numbers with a positive total of at
  most \<open>2 ^ 53\<close> (every sum of them is then exact in double precision, lemma
  \<open>whole_sum_exact\<close>) and below the budget, and a strategy whose budget and
  preserve ratio are doubles. Then pruning removes nothing, summarizes nothing and reports
  a reduction of 0 percent whenever every scored message is of an always-preserve type or
  reaches the threshold and the total is at most that rounded product. The total is the sum over the messages, which is what
  \<open>prune\<close> reads; the context's own \<open>totalTokens\<close> field is not used by it.
\<close>

theorem prune_noop:
  assumes whole: "\<forall>m \<in> set (messages ctx). tokenCount (metadata m) \<in> \<nat>"
    and positive: "0 < calculateTotalTokens (messages ctx)"
    and safe: "calculateTotalTokens (messages ctx) \<le> 2 ^ 53"
    and doubles: "is_double (maxTokens strategy) \<and> is_double (preserveRatio strategy)"
    and budget: "calculateTotalTokens (messages ctx) < maxTokens strategy"
    and ratio: "calculateTotalTokens (messages ctx)
                  \<le> js_mul (maxTokens strategy) (preserveRatio strategy)"
    and kept: "\<forall>m \<in> set (scoreMessages f ctx).
                 msgType m \<in> set (alwaysPreserve strategy)
                 \<or> importanceThreshold strategy \<le> importanceTotal m"
  shows "messagesRemoved (fst (prune f env h ctx strategy)) = 0
       \<and> messagesSummarized (fst (prune f env h ctx strategy)) = 0
       \<and> finalTokens (fst (prune f env h ctx strategy))
           = originalTokens (fst (prune f env h ctx strategy))
       \<and> reductionPercent (fst (prune f env h ctx strategy)) = Some 0"
proof -
  let ?scored = "scoreMessages f ctx"
  let ?sorted = "sortByImportance ?scored"
  have tokens_nonneg: "\<forall>m \<in> set (messages ctx). 0 \<le> tokenCount (metadata m)"
    using whole by (auto simp: Nats_def)
  have tot: "calculateTotalTokens ?scored = calculateTotalTokens (messages ctx)"
    by (simp add: calculateTotalTokens_sum scoreMessages_tokens)
  have sorted_tot: "calculateTotalTokens ?sorted = calculateTotalTokens (messages ctx)"
    using calculateTotalTokens_mset [of ?sorted ?scored] tot
    by (simp add: sortByImportance_def)
  have set_sorted: "set ?sorted = set ?scored"
    by (simp add: sortByImportance_def)
  have "\<forall>m \<in> set ?scored. 0 \<le> tokenCount (metadata m)"
  proof
    fix m assume "m \<in> set ?scored"
    then have "tokenCount (metadata m) \<in> set (map (\<lambda>m. tokenCount (metadata m)) ?scored)"
      by simp
    then have "tokenCount (metadata m)
                 \<in> set (map (\<lambda>m. tokenCount (metadata m)) (messages ctx))"
      by (simp only: scoreMessages_tokens)
    then show "0 \<le> tokenCount (metadata m)" using tokens_nonneg by auto
  qed
  then have nonneg: "\<forall>m \<in> set ?sorted. 0 \<le> tokenCount (metadata m)"
    using set_sorted by simp
  have kept': "\<forall>m \<in> set ?sorted. msgType m \<in> set (alwaysPreserve strategy)
                 \<or> importanceThreshold strategy \<le> importanceTotal m"
    using kept set_sorted by simp
  have loop: "categorize_loop strategy ?sorted [] [] [] 0
                = (?sorted, [], [], calculateTotalTokens (messages ctx))"
    using categorize_loop_all_preserved [OF nonneg kept', of 0 "[]" "[]" "[]"]
      budget sorted_tot by simp
  have corr: "budget_correction strategy (?sorted, [], [], calculateTotalTokens (messages ctx))
                = (?sorted, [], [])"
    using ratio by (simp add: budget_correction_def)
  have cat: "categorizeMessages ?scored strategy
               = \<lparr>preserved = restoreOriginalOrder ?sorted ?scored, toRemove = [],
                  toSummarize = []\<rparr>"
  proof -
    have e: "sortByImportance [] = []"
      by (simp add: sortByImportance_def)
    have r: "restoreOriginalOrder [] ?scored = []"
      by (simp add: restoreOriginalOrder_def)
    show ?thesis
      by (simp add: categorizeMessages_def loop corr e r)
  qed
  have "mset (restoreOriginalOrder ?sorted ?scored) = mset ?scored"
    by (simp add: restoreOriginalOrder_def sortByImportance_def)
  then have final: "calculateTotalTokens (restoreOriginalOrder ?sorted ?scored)
                      = calculateTotalTokens (messages ctx)"
    using calculateTotalTokens_mset tot by metis
  show ?thesis
    using positive final
    by (simp add: prune_def Let_def cat createSummaries_empty summariesToMessages_def
        js_divide_def calculateEnhancedTokenCount_messages)
qed

text \<open>
  The specification's no-op for every budget above the total fails for one query of 80000
  tokens under the default conservative strategy (100000 tokens, preserve ratio 0.7),
  whatever the scorer: below the threshold
  the query is not preserved; at or above it, the budget correction splices it out
  (80000 > 70000). It is too short to summarize, so it is removed.
\<close>

theorem prune_noop_counterexample:
  "\<forall>f. calculateTotalTokens (messages big_query_ctx) < maxTokens conservative
     \<and> totalTokens big_query_ctx < maxTokens conservative
     \<and> messagesRemoved (fst (prune f env0 [] big_query_ctx conservative)) = 1"
proof
  fix f :: scorer
  show "calculateTotalTokens (messages big_query_ctx) < maxTokens conservative
     \<and> totalTokens big_query_ctx < maxTokens conservative
     \<and> messagesRemoved (fst (prune f env0 [] big_query_ctx conservative)) = 1"
    by (simp add: prune_def Let_def big_query_ctx_def conservative_numbers
        calculateTotalTokens_def scoreMessages_def categorizeMessages_def sortByImportance_def
        budget_correction_def splice_start_def isSummarizable_def restoreOriginalOrder_def
        importanceTotal_def)
qed

theorem prune_noop_witness:
  "messagesRemoved (fst (prune low_scorer env0 [] small_ctx balanced)) = 0
   \<and> messagesSummarized (fst (prune low_scorer env0 [] small_ctx balanced)) = 0
   \<and> reductionPercent (fst (prune low_scorer env0 [] small_ctx balanced)) = Some 0"
proof -
  have h1: "\<forall>m \<in> set (scoreMessages low_scorer small_ctx).
              msgType m \<in> set (alwaysPreserve balanced)
              \<or> importanceThreshold balanced \<le> importanceTotal m"
    by (simp add: scoreMessages_def small_ctx_def balanced_numbers upt_rec)
  have h2: "\<forall>m \<in> set (messages small_ctx). tokenCount (metadata m) \<in> \<nat>"
    by (simp add: small_ctx_def)
  have h3: "calculateTotalTokens (messages small_ctx) = 230"
    by (simp add: small_ctx_def calculateTotalTokens_def)
  have h4: "is_double (maxTokens balanced) \<and> is_double (preserveRatio balanced)"
    by (simp add: is_double_balanced)
  have h5: "(230::real) \<le> js_mul (maxTokens balanced) (preserveRatio balanced)"
    by (simp add: balanced_numbers)
  have h6: "(230::real) < maxTokens balanced"
    by (simp add: balanced_numbers)
  show ?thesis
    using prune_noop [of small_ctx balanced low_scorer env0 "[]"] h1 h2 h3 h4 h5 h6 by simp
qed

text \<open>
  The rounding of the product decides. One error message of 63 tokens under the
  conservative strategy with a budget of 90 tokens: in exact arithmetic 63 does not exceed
  \<open>90 * 0.7\<close>, but the product in double precision is the double below 63, so the
  correction runs, the split point is \<open>floor (1 * 0.7) = 0\<close> and the message is
  removed. The hypothesis on the rounded product excludes this input.
\<close>

lemma rounded_product_removes:
  "\<not> 63 \<le> js_mul (maxTokens (conservative\<lparr>maxTokens := 90\<rparr>))
               (preserveRatio (conservative\<lparr>maxTokens := 90\<rparr>))
   \<and> preserved (categorizeMessages [scored_message ''e1'' Error 63 t]
                  (conservative\<lparr>maxTokens := 90\<rparr>)) = []
   \<and> toRemove (categorizeMessages [scored_message ''e1'' Error 63 t]
                 (conservative\<lparr>maxTokens := 90\<rparr>))
       = [scored_message ''e1'' Error 63 t]"
  by (simp add: categorizeMessages_def sortByImportance_def conservative_numbers
      scored_message_def budget_correction_def splice_start_def isSummarizable_def
      restoreOriginalOrder_def Let_def)

section \<open>The scoring pass and the BM25 index\<close>

lemma trim_nonempty: "\<not> is_space c \<Longrightarrow> trim (c # cs) \<noteq> []"
proof -
  assume c: "\<not> is_space c"
  then have "dropWhile is_space (rev (c # cs)) \<noteq> []"
    by (auto simp: dropWhile_eq_Nil_conv)
  with c show ?thesis by (simp add: trim_def)
qed

lemma calculateScore_unindexed:
  "arrays st (documentStats sc) = [] \<Longrightarrow> calculateScore lib (sc, st) q i = Some 0"
  by (auto simp: calculateScore_def)

lemma new_ContextAnalyzer_empty:
  "arrays (snd (new_ContextAnalyzer profile st))
     (documentStats (bm25Scorer (fst (new_ContextAnalyzer profile st)))) = []
   \<and> totalDocuments (bm25Scorer (fst (new_ContextAnalyzer profile st))) = 0"
  by (simp add: new_ContextAnalyzer_def new_BM25Scorer_def alloc_array_def alloc_table_def)

lemma index_loop_length:
  "length (fst (index_loop lib docs stats g n)) = length stats + length docs"
  by (induction docs arbitrary: stats g n) (simp_all add: Let_def split: prod.splits)

lemma indexDocuments_length:
  "length (arrays (snd (indexDocuments lib docs (sc, st)))
             (documentStats (fst (indexDocuments lib docs (sc, st))))) = length docs"
proof -
  obtain stats g n where il: "index_loop lib docs [] (\<lambda>term. 0) 0 = (stats, g, n)"
    by (metis prod_cases3)
  then have "length stats = length docs"
    using index_loop_length [of lib docs "[]" "\<lambda>term. 0" 0] by simp
  then show ?thesis
    by (simp add: indexDocuments_def alloc_array_def alloc_table_def il Let_def)
qed

text \<open>
  C4. The specification: the BM25 statistics that score the messages of a pass are built
  from the context's messages before the first message is scored, and all messages see
  the same statistics. The code departs from it. No method of the analyzer calls
  \<open>indexDocuments\<close>: in a scoring pass of a new analyzer over a context of two
  messages the scorer's document array is empty and its document count is 0, so
  \<open>calculateScore\<close> returns 0 at every index and the BM25 component of both messages
  is 0, for every behaviour of the libraries. Indexing the context's messages would have
  given statistics for two documents.
\<close>

theorem bm25_never_indexed:
  "arrays (snd (new_ContextAnalyzer technical empty_store))
     (documentStats (bm25Scorer (fst (new_ContextAnalyzer technical empty_store)))) = []
   \<and> totalDocuments (bm25Scorer (fst (new_ContextAnalyzer technical empty_store))) = 0
   \<and> scoreMessages_bm25 lib (new_ContextAnalyzer technical empty_store) two_message_ctx
       = [Some 0, Some 0]
   \<and> length (arrays (snd (indexDocuments lib (map content (messages two_message_ctx))
                 (bm25Scorer (fst (new_ContextAnalyzer technical empty_store)),
                  snd (new_ContextAnalyzer technical empty_store))))
         (documentStats (fst (indexDocuments lib (map content (messages two_message_ctx))
                 (bm25Scorer (fst (new_ContextAnalyzer technical empty_store)),
                  snd (new_ContextAnalyzer technical empty_store)))))) = 2"
proof -
  let ?A = "new_ContextAnalyzer technical empty_store"
  have empty: "arrays (snd ?A) (documentStats (bm25Scorer (fst ?A))) = []"
    and none: "totalDocuments (bm25Scorer (fst ?A)) = 0"
    using new_ContextAnalyzer_empty [of technical empty_store] by simp_all
  have prof: "currentProfile (fst ?A) = technical"
    by (simp add: new_ContextAnalyzer_def split: prod.splits)
  have query: "trim (join '' '' (semanticKeywords technical) @ CHR '' '' # q) \<noteq> []" for q
    by (simp add: technical_def trim_nonempty is_space_def)
  have one: "calculateBM25Score lib ?A i msgs = Some 0" for i msgs
  proof -
    obtain an st where A: "?A = (an, st)"
      by (cases ?A)
    then have "currentProfile an = technical" and "arrays st (documentStats (bm25Scorer an)) = []"
      using prof empty by simp_all
    then show ?thesis
      unfolding A calculateBM25Score_def
      by (simp add: Let_def query calculateScore_unindexed)
  qed
  have pass: "scoreMessages_bm25 lib ?A two_message_ctx = [Some 0, Some 0]"
    by (simp add: scoreMessages_bm25_def one two_message_ctx_def upt_rec)
  have len: "length (map content (messages two_message_ctx)) = 2"
    by (simp add: two_message_ctx_def)
  show ?thesis
    using empty none pass indexDocuments_length [of lib "map content (messages two_message_ctx)"
        "bm25Scorer (fst ?A)" "snd ?A"] len
    by simp
qed

section \<open>Inverse document frequency\<close>

lemma pre_cat_cat: "preprocessText plain_nlp ''cat cat'' = [''cat'', ''cat'']"
  by code_simp

lemma pre_dog: "preprocessText plain_nlp ''dog'' = [''dog'']"
  by code_simp

lemma pre_bird: "preprocessText plain_nlp ''bird'' = [''bird'']"
  by code_simp

lemma pre_cat: "preprocessText plain_nlp ''cat'' = [''cat'']"
  by code_simp

lemma cat_corpus_count: "tables (snd cat_corpus) (globalTermFreq (fst cat_corpus)) ''cat'' = 2"
  by (simp add: cat_corpus_def indexDocuments_def new_BM25Scorer_def alloc_array_def
      alloc_table_def empty_store_def pre_cat_cat pre_dog pre_bird Let_def)

lemma cat_spec_df: "spec_df plain_nlp [''cat cat'', ''dog'', ''bird''] ''cat'' = 1"
  by (simp add: spec_df_def pre_cat_cat pre_dog pre_bird)

lemma cat_code_score: "calculateScore plain_nlp cat_corpus ''cat'' 0 = Some 0"
proof -
  have neg: "ln (3 / 5 :: real) < 0" by (rule ln_less_zero) simp_all
  have "calculateScore plain_nlp cat_corpus ''cat'' 0
          = Some (max 0 (ln (3 / 5)
                           * (44 / 10 / (2 + 12 / 10 * (1 - 3 / 4 + 3 / 4 * (2 / (4 / 3)))))))"
    by (simp add: calculateScore_def cat_corpus_def indexDocuments_def new_BM25Scorer_def
        alloc_array_def alloc_table_def empty_store_def pre_cat_cat pre_dog pre_bird pre_cat
        Let_def js_log_def js_times_def js_plus_def js_divide_def)
  moreover have "ln (3 / 5 :: real)
                   * (44 / 10 / (2 + 12 / 10 * (1 - 3 / 4 + 3 / 4 * (2 / (4 / 3))))) \<le> 0"
    using neg by (simp add: mult_le_0_iff)
  ultimately show ?thesis by simp
qed

lemma cat_spec_score:
  "0 < spec_bm25 plain_nlp 1.2 0.75 [''cat cat'', ''dog'', ''bird''] ''cat'' 0"
proof -
  have pos: "0 < ln (5 / 3 :: real)" by (rule ln_gt_zero) simp
  have e: "spec_bm25 plain_nlp 1.2 0.75 [''cat cat'', ''dog'', ''bird''] ''cat'' 0
     = ln (5 / 3) * (88 / 73)"
    by (simp add: spec_bm25_def spec_idf_def cat_spec_df pre_cat_cat pre_dog pre_bird pre_cat
        Let_def)
  have "0 < ln (5 / 3 :: real) * (88 / 73)"
    using pos by simp
  then show ?thesis by (simp only: e)
qed

text \<open>
  With the occurrence count the argument of the logarithm can be negative: one document
  \<open>cat cat cat\<close> gives \<open>(1 - 3 + 0.5) / 3.5\<close>, and the score is NaN.
\<close>

lemma pre_cat_cat_cat:
  "preprocessText plain_nlp ''cat cat cat'' = [''cat'', ''cat'', ''cat'']"
  by code_simp

lemma idf_nan:
  "calculateScore plain_nlp
     (indexDocuments plain_nlp [''cat cat cat''] (new_BM25Scorer 1.2 0.75 empty_store))
     ''cat'' 0 = None"
  by (simp add: calculateScore_def indexDocuments_def new_BM25Scorer_def alloc_array_def
      alloc_table_def empty_store_def pre_cat_cat_cat pre_cat Let_def js_log_def js_times_def
      js_plus_def js_divide_def)

text \<open>
  C5. The specification: the score sums \<open>IDF * tf * (k1 + 1) / (tf + k1 * (1 - b + b *
  docLen / avgLen))\<close> over the query terms in the document, with \<open>IDF = ln ((N - df +
  0.5) / (df + 0.5))\<close> and \<open>df\<close> the number of documents that contain the term, not
  its number of occurrences. The code departs from it. In the corpus \<open>cat cat\<close>, \<open>dog\<close>,
  \<open>bird\<close> the term \<open>cat\<close> is in one document, but the table \<open>globalTermFreq\<close>
  that the code reads in place of \<open>df\<close> counts its two occurrences. For the query
  \<open>cat\<close> and the first document the code's logarithm is \<open>ln (1.5 / 2.5)\<close>, negative,
  and the score is floored to 0; with the document frequency the formula gives
  \<open>ln (2.5 / 1.5)\<close> times a positive factor.
\<close>

theorem idf_counts_occurrences:
  "tables (snd cat_corpus) (globalTermFreq (fst cat_corpus)) ''cat'' = 2
   \<and> spec_df plain_nlp [''cat cat'', ''dog'', ''bird''] ''cat'' = 1
   \<and> calculateScore plain_nlp cat_corpus ''cat'' 0 = Some 0
   \<and> 0 < spec_bm25 plain_nlp 1.2 0.75 [''cat cat'', ''dog'', ''bird''] ''cat'' 0"
  by (simp only: cat_corpus_count cat_spec_df cat_code_score cat_spec_score simp_thms)

section \<open>Pairwise similarity restores the corpus state\<close>

lemma indexDocuments_effect:
  assumes "indexDocuments lib docs (sc, st) = (sc', st')"
  shows "(\<forall>a < next_addr st. arrays st' a = arrays st a \<and> tables st' a = tables st a)
       \<and> next_addr st' = next_addr st + 2
       \<and> param_k1 sc' = param_k1 sc \<and> param_b sc' = param_b sc"
  using assms
  by (auto simp: indexDocuments_def alloc_array_def alloc_table_def Let_def split: prod.splits)

lemma score_loop_fields:
  assumes "param_k1 sc' = param_k1 sc" and "param_b sc' = param_b sc"
    and "totalDocuments sc' = totalDocuments sc"
  shows "score_loop sc' g d ts acc = score_loop sc g d ts acc"
  by (induction ts arbitrary: acc) (simp_all add: Let_def assms split: option.split)

lemma calculateScore_corpus_state:
  assumes "corpus_state (sc', st') = corpus_state (sc, st)"
    and "param_k1 sc' = param_k1 sc" and "param_b sc' = param_b sc"
  shows "calculateScore lib (sc', st') q i = calculateScore lib (sc, st) q i"
proof -
  from assms(1) have a: "arrays st' (documentStats sc') = arrays st (documentStats sc)"
    and t: "tables st' (globalTermFreq sc') = tables st (globalTermFreq sc)"
    and n: "totalDocuments sc' = totalDocuments sc"
    by (simp_all add: corpus_state_def)
  show ?thesis
    by (simp add: calculateScore_def a t Let_def score_loop_fields [OF assms(2,3) n])
qed

text \<open>
  C8. For a scorer whose two references point to allocated objects, and any two texts,
  \<open>calculateSimilarity\<close> leaves the corpus state (document statistics, term table,
  average length, document count) equal to its value before the call: the array field
  holds the same reference, no object that existed before the call is written, and every
  later \<open>calculateScore\<close> returns what it returned before.
\<close>

theorem calculateSimilarity_restores:
  assumes "allocated (sc, st)"
  shows "corpus_state (snd (calculateSimilarity lib (sc, st) text1 text2)) = corpus_state (sc, st)
       \<and> documentStats (fst (snd (calculateSimilarity lib (sc, st) text1 text2)))
           = documentStats sc
       \<and> param_k1 (fst (snd (calculateSimilarity lib (sc, st) text1 text2))) = param_k1 sc
       \<and> param_b (fst (snd (calculateSimilarity lib (sc, st) text1 text2))) = param_b sc
       \<and> (\<forall>a < next_addr st.
             arrays (snd (snd (calculateSimilarity lib (sc, st) text1 text2))) a = arrays st a
             \<and> tables (snd (snd (calculateSimilarity lib (sc, st) text1 text2))) a = tables st a)
       \<and> allocated (snd (calculateSimilarity lib (sc, st) text1 text2))
       \<and> (\<forall>q i. calculateScore lib (snd (calculateSimilarity lib (sc, st) text1 text2)) q i
                   = calculateScore lib (sc, st) q i)"
proof -
  let ?n = "next_addr st"
  obtain g0 st1 where al0: "alloc_table (tables st (globalTermFreq sc)) st = (g0, st1)"
    by (cases "alloc_table (tables st (globalTermFreq sc)) st")
  then have g0: "g0 = ?n" and nxt1: "next_addr st1 = ?n + 1"
    and arr1: "arrays st1 = arrays st"
    and tab1: "tables st1 = (tables st)(?n := tables st (globalTermFreq sc))"
    by (auto simp: alloc_table_def)
  obtain sc2 st2 where idx: "indexDocuments lib [text1, text2] (sc, st1) = (sc2, st2)"
    by (cases "indexDocuments lib [text1, text2] (sc, st1)")
  let ?sc' = "sc2\<lparr>documentStats := documentStats sc, globalTermFreq := ?n,
                  averageDocLength := averageDocLength sc, totalDocuments := totalDocuments sc\<rparr>"
  have after: "snd (calculateSimilarity lib (sc, st) text1 text2) = (?sc', st2)"
    by (simp add: calculateSimilarity_def al0 idx Let_def g0)
  from indexDocuments_effect [OF idx]
  have frame1: "\<forall>a < ?n + 1. arrays st2 a = arrays st1 a \<and> tables st2 a = tables st1 a"
    and nxt: "next_addr st2 = ?n + 3"
    and k1: "param_k1 sc2 = param_k1 sc" and b: "param_b sc2 = param_b sc"
    by (simp_all add: nxt1)
  from assms have d: "documentStats sc < ?n" and g: "globalTermFreq sc < ?n"
    by (simp_all add: allocated_def)
  have arr: "arrays st2 (documentStats sc) = arrays st (documentStats sc)"
    using frame1 d arr1 by simp
  have tab: "tables st2 ?n = tables st (globalTermFreq sc)"
    using frame1 tab1 by simp
  have frame: "\<forall>a < ?n. arrays st2 a = arrays st a \<and> tables st2 a = tables st a"
    using frame1 arr1 tab1 by simp
  have cs: "corpus_state (?sc', st2) = corpus_state (sc, st)"
    by (simp add: corpus_state_def arr tab)
  have al: "allocated (?sc', st2)"
    using d nxt by (simp add: allocated_def)
  have sc: "calculateScore lib (?sc', st2) q i = calculateScore lib (sc, st) q i" for q i
    by (rule calculateScore_corpus_state [OF cs]) (simp_all add: k1 b)
  show ?thesis
    unfolding after using cs frame al sc k1 b by simp
qed

lemma new_BM25Scorer_allocated: "allocated (new_BM25Scorer k1 b st)"
  by (simp add: allocated_def new_BM25Scorer_def alloc_array_def alloc_table_def)

lemma indexDocuments_allocated: "allocated (indexDocuments lib docs s)"
proof -
  obtain sc st where s: "s = (sc, st)"
    by (cases s)
  obtain stats g n where il: "index_loop lib docs [] (\<lambda>term. 0) 0 = (stats, g, n)"
    by (metis prod_cases3)
  show ?thesis
    by (simp add: s allocated_def indexDocuments_def alloc_array_def alloc_table_def il Let_def)
qed

theorem calculateSimilarity_restores_witness:
  "allocated cat_corpus
   \<and> corpus_state (snd (calculateSimilarity plain_nlp cat_corpus ''cat dog'' ''dog bird''))
       = corpus_state cat_corpus
   \<and> calculateScore plain_nlp
         (snd (calculateSimilarity plain_nlp cat_corpus ''cat dog'' ''dog bird'')) ''dog'' 1
       = calculateScore plain_nlp cat_corpus ''dog'' 1"
proof -
  have al: "allocated (fst cat_corpus, snd cat_corpus)"
    by (simp add: cat_corpus_def indexDocuments_allocated)
  show ?thesis
    using al calculateSimilarity_restores
      [OF al, of plain_nlp "''cat dog''" "''dog bird''"]
    by simp
qed

end
